theory Spec2Isabelle
  imports Main "HOL-Library.AList" "HOL-Library.Char_ord" "HOL-Library.List_Lexorder"
begin

section \<open>Go string helpers used by the transports\<close>

text \<open>\<^verbatim>\<open>strings.HasPrefix(s, prefix)\<close>: \<^verbatim>\<open>len(s) >= len(prefix) && s[:len(prefix)] == prefix\<close>.\<close>

definition HasPrefix :: "string \<Rightarrow> string \<Rightarrow> bool" where
  "HasPrefix s p = (length p \<le> length s \<and> take (length p) s = p)"

text \<open>\<^verbatim>\<open>strings.TrimPrefix(s, prefix)\<close>: \<^verbatim>\<open>s\<close> without the prefix when it has it, else \<^verbatim>\<open>s\<close>.\<close>

definition TrimPrefix :: "string \<Rightarrow> string \<Rightarrow> string" where
  "TrimPrefix s p = (if HasPrefix s p then drop (length p) s else s)"

text \<open>The positions at which \<^verbatim>\<open>sep\<close> occurs in \<^verbatim>\<open>s\<close>, in increasing order.\<close>

definition occurrences :: "string \<Rightarrow> string \<Rightarrow> nat list" where
  "occurrences s sep =
     filter (\<lambda>i. take (length sep) (drop i s) = sep) [0 ..< Suc (length s - length sep)]"

text \<open>\<^verbatim>\<open>strings.LastIndex(s, sep)\<close>: the index of the last occurrence, or \<^verbatim>\<open>-1\<close>.\<close>

definition LastIndex :: "string \<Rightarrow> string \<Rightarrow> int" where
  "LastIndex s sep =
     (if length s < length sep then - 1
      else case rev (occurrences s sep) of [] \<Rightarrow> - 1 | i # _ \<Rightarrow> int i)"

text \<open>\<^verbatim>\<open>strings.Contains(s, sub)\<close>.\<close>

definition Contains :: "string \<Rightarrow> string \<Rightarrow> bool" where
  "Contains s sub = (length sub \<le> length s \<and> occurrences s sub \<noteq> [])"

section \<open>Endpoint resolution of the discovery-stream transport\<close>

text \<open>\<^verbatim>\<open>TraditionalSSETransport.resolveEndpoint\<close>; the only field of the receiver it
  reads is \<^verbatim>\<open>sseURL\<close>. The slice \<^verbatim>\<open>base[:idx]\<close> is taken only for \<^verbatim>\<open>idx > 8\<close>, and
  \<^verbatim>\<open>idx\<close> is an index into \<^verbatim>\<open>base\<close>, so it is in range.\<close>

definition resolveEndpoint :: "string \<Rightarrow> string \<Rightarrow> string" where
  "resolveEndpoint sseURL endpoint =
     (if HasPrefix endpoint ''http://'' \<or> HasPrefix endpoint ''https://'' then endpoint
      else
        let idx = LastIndex sseURL ''/'';
            base = (if idx > 8 then take (nat idx) sseURL else sseURL)
        in if HasPrefix endpoint ''/'' then base @ endpoint
           else base @ ''/'' @ endpoint)"

section \<open>JSON texts\<close>

text \<open>The transports hand bytes to \<^verbatim>\<open>encoding/json\<close> and to the decoding methods of the
  transport library; neither is among the sources, and the transports are modelled
  over them as parameters. This section serves the concrete instances of those
  parameters, on which the payloads of the spec and the examples are evaluated. Its
  functions read a JSON text the way RFC 8259 structures it: insignificant white space,
  the literals \<^verbatim>\<open>null\<close>, \<^verbatim>\<open>true\<close>, \<^verbatim>\<open>false\<close>, numbers, strings with escapes, arrays and
  objects. They only delimit values: a value is kept as the very bytes that spell it.\<close>

definition isSpace :: "char \<Rightarrow> bool" where
  "isSpace c = (c = CHR '' '' \<or> c = CHR 0x09 \<or> c = CHR 0x0A \<or> c = CHR 0x0D)"

definition skipWS :: "string \<Rightarrow> string" where
  "skipWS s = dropWhile isSpace s"

definition isDigit :: "char \<Rightarrow> bool" where
  "isDigit c = (c \<in> set ''0123456789'')"

definition isHex :: "char \<Rightarrow> bool" where
  "isHex c = (c \<in> set ''0123456789abcdefABCDEF'')"

text \<open>The rest of the input after a string whose opening quote has been read. A control
  character inside a string and an unknown escape are syntax errors.\<close>

fun scanString :: "string \<Rightarrow> string option" where
  "scanString [] = None"
| "scanString (c # cs) =
     (if c = CHR 0x22 then Some cs
      else if c = CHR 0x5C then
        (case cs of
           [] \<Rightarrow> None
         | e # es \<Rightarrow>
             if e \<in> set [CHR 0x22, CHR 0x5C, CHR ''/'', CHR ''b'', CHR ''f'', CHR ''n'', CHR ''r'', CHR ''t'']
             then scanString es
             else if e = CHR ''u'' \<and> 4 \<le> length es \<and> list_all isHex (take 4 es)
             then scanString (drop 4 es)
             else None)
      else if (of_char c :: nat) < 0x20 then None
      else scanString cs)"

text \<open>Numbers: \<^verbatim>\<open>-? (0 | [1-9][0-9]*) (. [0-9]+)? ([eE] [+-]? [0-9]+)?\<close>.\<close>

definition scanExp :: "string \<Rightarrow> string option" where
  "scanExp s =
     (case s of
        [] \<Rightarrow> Some s
      | e # es \<Rightarrow>
          if e = CHR ''e'' \<or> e = CHR ''E'' then
            (let ds = (case es of
                         [] \<Rightarrow> es
                       | g # gs \<Rightarrow> if g = CHR ''+'' \<or> g = CHR ''-'' then gs else es)
             in case ds of
                  [] \<Rightarrow> None
                | d # _ \<Rightarrow> if isDigit d then Some (dropWhile isDigit ds) else None)
          else Some s)"

definition scanFrac :: "string \<Rightarrow> string option" where
  "scanFrac s =
     (case s of
        [] \<Rightarrow> Some s
      | p # ds \<Rightarrow>
          if p = CHR ''.'' then
            (case ds of
               [] \<Rightarrow> None
             | d # _ \<Rightarrow> if isDigit d then scanExp (dropWhile isDigit ds) else None)
          else scanExp s)"

definition scanNumber :: "string \<Rightarrow> string option" where
  "scanNumber s =
     (let ds = (case s of [] \<Rightarrow> s | m # ms \<Rightarrow> if m = CHR ''-'' then ms else s)
      in case ds of
           [] \<Rightarrow> None
         | d # r \<Rightarrow>
             if d = CHR ''0'' then scanFrac r
             else if isDigit d then scanFrac (dropWhile isDigit r)
             else None)"

text \<open>One value, with the white space before it; the result is the input that follows
  the value. The first argument bounds the number of nested calls, and a text that
  needs more is rejected; \<^term>\<open>objectMembers\<close> passes the length of the text.
  \<^term>\<open>scanMembers\<close> reads the members of an object after its opening brace and also
  returns them: the bytes of each key (between its quotes) and the bytes of its value.\<close>

fun scanValue :: "nat \<Rightarrow> string \<Rightarrow> string option"
  and scanElements :: "nat \<Rightarrow> string \<Rightarrow> string option"
  and scanMembers :: "nat \<Rightarrow> string \<Rightarrow> ((string \<times> string) list \<times> string) option"
where
  "scanValue 0 s = None"
| "scanValue (Suc n) s =
     (case skipWS s of
        [] \<Rightarrow> None
      | c # cs \<Rightarrow>
          if c = CHR ''{'' then
            (case skipWS cs of
               [] \<Rightarrow> None
             | d # r \<Rightarrow> if d = CHR ''}'' then Some r else map_option snd (scanMembers n cs))
          else if c = CHR ''['' then
            (case skipWS cs of
               [] \<Rightarrow> None
             | d # r \<Rightarrow> if d = CHR '']'' then Some r else scanElements n cs)
          else if c = CHR 0x22 then scanString cs
          else if c = CHR ''-'' \<or> isDigit c then scanNumber (c # cs)
          else if HasPrefix (c # cs) ''true'' then Some (drop 4 (c # cs))
          else if HasPrefix (c # cs) ''false'' then Some (drop 5 (c # cs))
          else if HasPrefix (c # cs) ''null'' then Some (drop 4 (c # cs))
          else None)"
| "scanElements 0 s = None"
| "scanElements (Suc n) s =
     (case scanValue n s of
        None \<Rightarrow> None
      | Some r \<Rightarrow>
          (case skipWS r of
             [] \<Rightarrow> None
           | d # r' \<Rightarrow>
               if d = CHR '','' then scanElements n r'
               else if d = CHR '']'' then Some r'
               else None))"
| "scanMembers 0 s = None"
| "scanMembers (Suc n) s =
     (case skipWS s of
        [] \<Rightarrow> None
      | q # ks \<Rightarrow>
          if q \<noteq> CHR 0x22 then None
          else
            (case scanString ks of
               None \<Rightarrow> None
             | Some r \<Rightarrow>
                 (case skipWS r of
                    [] \<Rightarrow> None
                  | c # vs \<Rightarrow>
                      if c \<noteq> CHR '':'' then None
                      else
                        (case scanValue n vs of
                           None \<Rightarrow> None
                         | Some r' \<Rightarrow>
                             (let key = take (length ks - length r - 1) ks;
                                  val = take (length (skipWS vs) - length r') (skipWS vs)
                              in case skipWS r' of
                                   [] \<Rightarrow> None
                                 | d # r'' \<Rightarrow>
                                     if d = CHR '','' then
                                       (case scanMembers n r'' of
                                          None \<Rightarrow> None
                                        | Some (ms, rest) \<Rightarrow> Some ((key, val) # ms, rest))
                                     else if d = CHR ''}'' then Some ([(key, val)], r'')
                                     else None)))))"

text \<open>The members of a JSON text that is one object and nothing else but white space;
  \<^term>\<open>None\<close> for every other text, well-formed or not.\<close>

definition objectMembers :: "string \<Rightarrow> (string \<times> string) list option" where
  "objectMembers s =
     (case skipWS s of
        [] \<Rightarrow> None
      | c # cs \<Rightarrow>
          if c \<noteq> CHR ''{'' then None
          else
            (case skipWS cs of
               [] \<Rightarrow> None
             | d # r \<Rightarrow>
                 if d = CHR ''}'' then (if skipWS r = [] then Some [] else None)
                 else
                   (case scanMembers (length s) cs of
                      None \<Rightarrow> None
                    | Some (ms, rest) \<Rightarrow> if skipWS rest = [] then Some ms else None)))"

section \<open>JSON-RPC messages\<close>

text \<open>Modelled from the spec: the message types of the transport library
  (\<^verbatim>\<open>github.com/metoro-io/mcp-golang/transport\<close>), whose declarations are not among the
  sources. Section 3 of the spec gives the four variants and their fields: Request
  \<open>{id, method, params}\<close>, Response \<open>{id, result}\<close>, Error \<open>{id, code, message, data}\<close>,
  Notification \<open>{method, params}\<close>, each with the protocol-version marker \<^verbatim>\<open>jsonrpc\<close>, and
  the envelope in which exactly one variant is set. The parameter object and the result
  are kept as bytes (the transports test \<^verbatim>\<open>len(msg.JsonRpcRequest.Params)\<close> and assign
  \<^verbatim>\<open>[]byte("{}")\<close> to it).\<close>

record BaseJSONRPCRequest =
  req_Id :: int
  req_Jsonrpc :: string
  req_Method :: string
  req_Params :: string

record BaseJSONRPCNotification =
  ntf_Jsonrpc :: string
  ntf_Method :: string
  ntf_Params :: string

record BaseJSONRPCResponse =
  rsp_Id :: int
  rsp_Jsonrpc :: string
  rsp_Result :: string

record BaseJSONRPCErrorInner =
  Code :: int
  Message :: string
  Data :: "string option"

record BaseJSONRPCError =
  err_Error :: BaseJSONRPCErrorInner
  err_Id :: int
  err_Jsonrpc :: string

datatype BaseMessageType =
  BaseMessageTypeJSONRPCRequestType
| BaseMessageTypeJSONRPCNotificationType
| BaseMessageTypeJSONRPCResponseType
| BaseMessageTypeJSONRPCErrorType

record BaseJsonRpcMessage =
  Type :: BaseMessageType
  JsonRpcRequest :: "BaseJSONRPCRequest option"
  JsonRpcNotification :: "BaseJSONRPCNotification option"
  JsonRpcResponse :: "BaseJSONRPCResponse option"
  JsonRpcError :: "BaseJSONRPCError option"

definition NewBaseMessageRequest :: "BaseJSONRPCRequest \<Rightarrow> BaseJsonRpcMessage" where
  "NewBaseMessageRequest r =
     \<lparr>Type = BaseMessageTypeJSONRPCRequestType, JsonRpcRequest = Some r,
      JsonRpcNotification = None, JsonRpcResponse = None, JsonRpcError = None\<rparr>"

definition NewBaseMessageNotification :: "BaseJSONRPCNotification \<Rightarrow> BaseJsonRpcMessage" where
  "NewBaseMessageNotification n =
     \<lparr>Type = BaseMessageTypeJSONRPCNotificationType, JsonRpcRequest = None,
      JsonRpcNotification = Some n, JsonRpcResponse = None, JsonRpcError = None\<rparr>"

definition NewBaseMessageResponse :: "BaseJSONRPCResponse \<Rightarrow> BaseJsonRpcMessage" where
  "NewBaseMessageResponse r =
     \<lparr>Type = BaseMessageTypeJSONRPCResponseType, JsonRpcRequest = None,
      JsonRpcNotification = None, JsonRpcResponse = Some r, JsonRpcError = None\<rparr>"

definition NewBaseMessageError :: "BaseJSONRPCError \<Rightarrow> BaseJsonRpcMessage" where
  "NewBaseMessageError e =
     \<lparr>Type = BaseMessageTypeJSONRPCErrorType, JsonRpcRequest = None,
      JsonRpcNotification = None, JsonRpcResponse = None, JsonRpcError = Some e\<rparr>"

text \<open>The four calls \<^verbatim>\<open>json.Unmarshal(body, &x)\<close> of the classifier, one per type of
  \<^verbatim>\<open>x\<close>. The decoding methods belong to the library, so the transports are modelled
  over any four decoders; \<^term>\<open>Inl\<close> carries the decoder's error.\<close>

record decoders =
  UnmarshalResponse :: "string \<Rightarrow> string + BaseJSONRPCResponse"
  UnmarshalError :: "string \<Rightarrow> string + BaseJSONRPCError"
  UnmarshalNotification :: "string \<Rightarrow> string + BaseJSONRPCNotification"
  UnmarshalRequest :: "string \<Rightarrow> string + BaseJSONRPCRequest"

subsection \<open>Decoders after the data model of the spec\<close>

text \<open>Modelled from the spec: the decoding of the four message types, which the
  library implements and the sources do not contain. Section 3: a variant is
  discriminated \<^emph>\<open>by presence of distinguishing fields (id+method+params \<rightarrow> request;
  id+result \<rightarrow> response; id+error \<rightarrow> error; method+no id \<rightarrow> notification) and a
  protocol-version marker field that must be present\<close>. The parameter object of a request
  or notification may be absent (section 4.2 speaks of a Request \<^emph>\<open>whose parameter object
  is absent\<close>, and section 8 has a Request without one); it is then the empty byte
  string. The identifier is a 64-bit integer, the marker and the method are strings,
  and a member is looked up by its exact name.\<close>

text \<open>The bytes between the quotes of a JSON string, with the two-character escapes
  replaced. A \<^verbatim>\<open>\u\<close> escape is outside what this function reads: it gives
  \<^term>\<open>None\<close>.\<close>

fun unquote :: "string \<Rightarrow> string option" where
  "unquote [] = Some []"
| "unquote (c # cs) =
     (if c = CHR 0x5C then
        (case cs of
           [] \<Rightarrow> None
         | e # es \<Rightarrow>
             (case map_of [(CHR 0x22, CHR 0x22), (CHR 0x5C, CHR 0x5C), (CHR ''/'', CHR ''/''),
                           (CHR ''b'', CHR 0x08), (CHR ''f'', CHR 0x0C), (CHR ''n'', CHR 0x0A),
                           (CHR ''r'', CHR 0x0D), (CHR ''t'', CHR 0x09)] e of
                None \<Rightarrow> None
              | Some d \<Rightarrow> map_option ((#) d) (unquote es)))
      else map_option ((#) c) (unquote cs))"

text \<open>A member value read as a string, and as a 64-bit signed integer (an integer
  literal without fraction or exponent, in range).\<close>

definition decodeString :: "string \<Rightarrow> string option" where
  "decodeString raw =
     (if 2 \<le> length raw \<and> hd raw = CHR 0x22 \<and> last raw = CHR 0x22
      then unquote (butlast (tl raw)) else None)"

definition digitsValue :: "string \<Rightarrow> int" where
  "digitsValue ds = foldl (\<lambda>a c. 10 * a + (int (of_char c) - 48)) 0 ds"

definition decodeInt64 :: "string \<Rightarrow> int option" where
  "decodeInt64 raw =
     (let neg = HasPrefix raw ''-'';
          ds = (if neg then tl raw else raw);
          v = (if neg then - digitsValue ds else digitsValue ds)
      in if ds \<noteq> [] \<and> list_all isDigit ds \<and> - (2 ^ 63) \<le> v \<and> v < 2 ^ 63
         then Some v else None)"

text \<open>The value of the member named \<^term>\<open>name\<close>: of the last such member when the name
  is repeated; a member whose value is \<^verbatim>\<open>null\<close> counts as absent.\<close>

definition field :: "(string \<times> string) list \<Rightarrow> string \<Rightarrow> string option" where
  "field ms name =
     (case filter (\<lambda>(k, v). unquote k = Some name) ms of
        [] \<Rightarrow> None
      | kvs \<Rightarrow> (let raw = snd (last kvs) in if raw = ''null'' then None else Some raw))"

text \<open>Modelled from the spec: the library's decoding into \<^verbatim>\<open>BaseJSONRPCResponse\<close>, which
  is not among the sources. A Response has the marker, \<^verbatim>\<open>id\<close> and \<^verbatim>\<open>result\<close>.\<close>

definition decodeResponse :: "string \<Rightarrow> string + BaseJSONRPCResponse" where
  "decodeResponse body =
     (case objectMembers body of
        None \<Rightarrow> Inl ''not a JSON object''
      | Some ms \<Rightarrow>
          (case (Option.bind (field ms ''id'') decodeInt64,
                 Option.bind (field ms ''jsonrpc'') decodeString,
                 field ms ''result'') of
             (Some i, Some v, Some r) \<Rightarrow> Inr \<lparr>rsp_Id = i, rsp_Jsonrpc = v, rsp_Result = r\<rparr>
           | _ \<Rightarrow> Inl ''field in BaseJSONRPCResponse: required''))"

text \<open>Modelled from the spec: the library's decoding into \<^verbatim>\<open>BaseJSONRPCError\<close>, which is
  not among the sources. An Error has the marker, \<^verbatim>\<open>id\<close> and \<^verbatim>\<open>error\<close>, an object with
  \<^verbatim>\<open>code\<close>, \<^verbatim>\<open>message\<close> and possibly \<^verbatim>\<open>data\<close>.\<close>

definition decodeErrorInner :: "string \<Rightarrow> BaseJSONRPCErrorInner option" where
  "decodeErrorInner raw =
     (case objectMembers raw of
        None \<Rightarrow> None
      | Some ms \<Rightarrow>
          (case (Option.bind (field ms ''code'') decodeInt64,
                 Option.bind (field ms ''message'') decodeString) of
             (Some c, Some m) \<Rightarrow> Some \<lparr>Code = c, Message = m, Data = field ms ''data''\<rparr>
           | _ \<Rightarrow> None))"

definition decodeError :: "string \<Rightarrow> string + BaseJSONRPCError" where
  "decodeError body =
     (case objectMembers body of
        None \<Rightarrow> Inl ''not a JSON object''
      | Some ms \<Rightarrow>
          (case (Option.bind (field ms ''id'') decodeInt64,
                 Option.bind (field ms ''jsonrpc'') decodeString,
                 Option.bind (field ms ''error'') decodeErrorInner) of
             (Some i, Some v, Some e) \<Rightarrow> Inr \<lparr>err_Error = e, err_Id = i, err_Jsonrpc = v\<rparr>
           | _ \<Rightarrow> Inl ''field in BaseJSONRPCError: required''))"

text \<open>Modelled from the spec: the library's decoding into \<^verbatim>\<open>BaseJSONRPCNotification\<close>,
  which is not among the sources. A Notification has the marker and \<^verbatim>\<open>method\<close>, and no
  \<^verbatim>\<open>id\<close>.\<close>

definition decodeNotification :: "string \<Rightarrow> string + BaseJSONRPCNotification" where
  "decodeNotification body =
     (case objectMembers body of
        None \<Rightarrow> Inl ''not a JSON object''
      | Some ms \<Rightarrow>
          (case (Option.bind (field ms ''jsonrpc'') decodeString,
                 Option.bind (field ms ''method'') decodeString,
                 field ms ''id'') of
             (Some v, Some m, None) \<Rightarrow>
               Inr \<lparr>ntf_Jsonrpc = v, ntf_Method = m,
                    ntf_Params = (case field ms ''params'' of None \<Rightarrow> [] | Some p \<Rightarrow> p)\<rparr>
           | _ \<Rightarrow> Inl ''field in BaseJSONRPCNotification: required or not allowed''))"

text \<open>Modelled from the spec: the library's decoding into \<^verbatim>\<open>BaseJSONRPCRequest\<close>, which
  is not among the sources. A Request has the marker, \<^verbatim>\<open>id\<close> and \<^verbatim>\<open>method\<close>.\<close>

definition decodeRequest :: "string \<Rightarrow> string + BaseJSONRPCRequest" where
  "decodeRequest body =
     (case objectMembers body of
        None \<Rightarrow> Inl ''not a JSON object''
      | Some ms \<Rightarrow>
          (case (Option.bind (field ms ''id'') decodeInt64,
                 Option.bind (field ms ''jsonrpc'') decodeString,
                 Option.bind (field ms ''method'') decodeString) of
             (Some i, Some v, Some m) \<Rightarrow>
               Inr \<lparr>req_Id = i, req_Jsonrpc = v, req_Method = m,
                    req_Params = (case field ms ''params'' of None \<Rightarrow> [] | Some p \<Rightarrow> p)\<rparr>
           | _ \<Rightarrow> Inl ''field in BaseJSONRPCRequest: required''))"

definition specDecoders :: decoders where
  "specDecoders =
     \<lparr>UnmarshalResponse = decodeResponse, UnmarshalError = decodeError,
      UnmarshalNotification = decodeNotification, UnmarshalRequest = decodeRequest\<rparr>"

section \<open>The message classifier\<close>

datatype error =
  FailedToMarshalMessage string
| FailedToCreateRequest string
| FailedToSendRequest string
| ServerReturnedError string int
| FailedToReadResponse string
| ReceivedInvalidResponse string
| FailedToCreateSSERequest string
| FailedToConnectToSSEEndpoint string
| SSEConnectionFailed string int
| UnexpectedContentType string
| FailedToGetEndpoint string
| TransportNotStarted
| LibraryError string

text \<open>One step of the cascade: \<^verbatim>\<open>err == nil && x.Jsonrpc != ""\<close> for the value
  \<^verbatim>\<open>x\<close> that \<^verbatim>\<open>json.Unmarshal\<close> filled.\<close>

definition attempt :: "string + 'a \<Rightarrow> ('a \<Rightarrow> string) \<Rightarrow> 'a option" where
  "attempt r jsonrpc =
     (case r of Inl err \<Rightarrow> None | Inr x \<Rightarrow> if jsonrpc x \<noteq> [] then Some x else None)"

text \<open>\<^verbatim>\<open>SSEClientTransport.handleJSONResponse\<close>. The registered handler is a callback: it
  is modelled as a function on the state \<^typ>\<open>'s\<close> of whoever registered it, and calling
  it is applying it. The result is the returned error (\<^term>\<open>None\<close> for \<^verbatim>\<open>nil\<close>) and
  that state.\<close>

definition handleJSONResponse ::
  "decoders \<Rightarrow> (BaseJsonRpcMessage \<Rightarrow> 's \<Rightarrow> 's) option \<Rightarrow> string \<Rightarrow> 's \<Rightarrow> error option \<times> 's"
where
  "handleJSONResponse D handler body s =
     (case handler of
        None \<Rightarrow> (None, s)
      | Some h \<Rightarrow>
          (case attempt (UnmarshalResponse D body) rsp_Jsonrpc of
             Some response \<Rightarrow> (None, h (NewBaseMessageResponse response) s)
           | None \<Rightarrow>
          (case attempt (UnmarshalError D body) err_Jsonrpc of
             Some errorResponse \<Rightarrow> (None, h (NewBaseMessageError errorResponse) s)
           | None \<Rightarrow>
          (case attempt (UnmarshalNotification D body) ntf_Jsonrpc of
             Some notification \<Rightarrow> (None, h (NewBaseMessageNotification notification) s)
           | None \<Rightarrow>
          (case attempt (UnmarshalRequest D body) req_Jsonrpc of
             Some request \<Rightarrow> (None, h (NewBaseMessageRequest request) s)
           | None \<Rightarrow> (Some (ReceivedInvalidResponse body), s))))))"


subsection \<open>The classifier as section 4.1 of the spec words it\<close>

text \<open>\<^emph>\<open>Attempts decode, in order, as Response, Error, Notification, Request; accepts the
  first variant whose decode succeeds AND whose protocol-version marker field is
  non-empty. If no variant matches, returns a ClassificationError carrying the raw
  bytes.\<close> This definition follows those words, not the code; the theorem of claim C1
  compares the two.\<close>

datatype variant = Response | Error | Notification | Request

definition decodeAs :: "decoders \<Rightarrow> variant \<Rightarrow> string \<Rightarrow> string + BaseJsonRpcMessage" where
  "decodeAs D v body =
     (case v of
        Response \<Rightarrow> map_sum id NewBaseMessageResponse (UnmarshalResponse D body)
      | Error \<Rightarrow> map_sum id NewBaseMessageError (UnmarshalError D body)
      | Notification \<Rightarrow> map_sum id NewBaseMessageNotification (UnmarshalNotification D body)
      | Request \<Rightarrow> map_sum id NewBaseMessageRequest (UnmarshalRequest D body))"

definition marker :: "BaseJsonRpcMessage \<Rightarrow> string" where
  "marker m =
     (case Type m of
        BaseMessageTypeJSONRPCRequestType \<Rightarrow> (case JsonRpcRequest m of Some r \<Rightarrow> req_Jsonrpc r | None \<Rightarrow> [])
      | BaseMessageTypeJSONRPCNotificationType \<Rightarrow> (case JsonRpcNotification m of Some n \<Rightarrow> ntf_Jsonrpc n | None \<Rightarrow> [])
      | BaseMessageTypeJSONRPCResponseType \<Rightarrow> (case JsonRpcResponse m of Some r \<Rightarrow> rsp_Jsonrpc r | None \<Rightarrow> [])
      | BaseMessageTypeJSONRPCErrorType \<Rightarrow> (case JsonRpcError m of Some e \<Rightarrow> err_Jsonrpc e | None \<Rightarrow> []))"

definition accepts :: "decoders \<Rightarrow> string \<Rightarrow> variant \<Rightarrow> bool" where
  "accepts D body v = (case decodeAs D v body of Inl err \<Rightarrow> False | Inr m \<Rightarrow> marker m \<noteq> [])"

datatype classification = Classified variant BaseJsonRpcMessage | ClassificationError string

definition classify :: "decoders \<Rightarrow> string \<Rightarrow> classification" where
  "classify D body =
     (case find (accepts D body) [Response, Error, Notification, Request] of
        None \<Rightarrow> ClassificationError body
      | Some v \<Rightarrow>
          (case decodeAs D v body of
             Inr m \<Rightarrow> Classified v m
           | Inl err \<Rightarrow> ClassificationError body))"

section \<open>The null-stripping normalizer\<close>

text \<open>A value of Go's \<^verbatim>\<open>interface{}\<close>: \<^verbatim>\<open>nil\<close>, which is what the JSON literal
  \<^verbatim>\<open>null\<close> decodes to, or a dynamic value. The normalizer only tests \<^verbatim>\<open>v != nil\<close>, so
  the dynamic values are a type parameter.\<close>

datatype 'v iface = Nil | Val 'v

text \<open>What the normalizer uses of \<^verbatim>\<open>encoding/json\<close>, as parameters:
  \<^item> \<^verbatim>\<open>json.Unmarshal(params, &m)\<close> for \<^verbatim>\<open>m\<close> of type \<^verbatim>\<open>map[string]interface{}\<close>. A Go map
    holds one entry per key; it is modelled by the list of its entries, in the order
    in which the \<^verbatim>\<open>range\<close> statement visits them (Go leaves that order open, and every
    theorem below holds for every list). The text \<^verbatim>\<open>null\<close> leaves \<^verbatim>\<open>m\<close> \<^verbatim>\<open>nil\<close>, over
    which \<^verbatim>\<open>range\<close> makes no iteration: that is the empty list.
  \<^item> the encoder's quoted form of a key, and its encoding of a dynamic value, which
    may fail.\<close>

record 'v jsonlib =
  UnmarshalMap :: "string \<Rightarrow> string + (string \<times> 'v iface) list"
  appendString :: "string \<Rightarrow> string"
  encodeValue :: "'v \<Rightarrow> string + string"

text \<open>\<^verbatim>\<open>strings.Join(elems, sep)\<close>.\<close>

fun Join :: "string list \<Rightarrow> string \<Rightarrow> string" where
  "Join [] sep = []"
| "Join [x] sep = x"
| "Join (x # y # ys) sep = x @ sep @ Join (y # ys) sep"

text \<open>\<^verbatim>\<open>json.Marshal(cleaned)\<close> for a map that is not \<^verbatim>\<open>nil\<close> (\<^verbatim>\<open>cleaned\<close> comes from
  \<^verbatim>\<open>make\<close>): an opening brace, the entries in the order of their keys, each as quoted
  key, colon and encoded value, separated by commas, and a closing brace. The first
  value that cannot be encoded makes the whole call fail.\<close>

fun encodeEntries :: "'v jsonlib \<Rightarrow> (string \<times> 'v iface) list \<Rightarrow> string + string list" where
  "encodeEntries L [] = Inr []"
| "encodeEntries L ((k, v) # kvs) =
     (case (case v of Nil \<Rightarrow> Inr ''null'' | Val x \<Rightarrow> encodeValue L x) of
        Inl err \<Rightarrow> Inl err
      | Inr e \<Rightarrow>
          (case encodeEntries L kvs of
             Inl err \<Rightarrow> Inl err
           | Inr es \<Rightarrow> Inr ((appendString L k @ '':'' @ e) # es)))"

definition MarshalMap :: "'v jsonlib \<Rightarrow> (string \<times> 'v iface) list \<Rightarrow> string + string" where
  "MarshalMap L m =
     (case encodeEntries L (sort_key fst m) of
        Inl err \<Rightarrow> Inl err
      | Inr es \<Rightarrow> Inr (''{'' @ Join es '','' @ ''}''))"

text \<open>The assignment \<^verbatim>\<open>msg.JsonRpcRequest.Params = p\<close>.\<close>

definition setParams :: "BaseJsonRpcMessage \<Rightarrow> BaseJSONRPCRequest \<Rightarrow> string \<Rightarrow> BaseJsonRpcMessage" where
  "setParams m req p = m\<lparr>JsonRpcRequest := Some (req\<lparr>req_Params := p\<rparr>)\<rparr>"

text \<open>The loop \<^verbatim>\<open>for k, v := range params { if v != nil { cleaned[k] = v } }\<close>: the
  entries of \<^verbatim>\<open>params\<close> whose value is not \<^verbatim>\<open>nil\<close>.\<close>

definition removeNulls :: "(string \<times> 'v iface) list \<Rightarrow> (string \<times> 'v iface) list" where
  "removeNulls params = filter (\<lambda>(k, v). v \<noteq> Nil) params"

text \<open>\<^verbatim>\<open>CleaningStdioTransport.cleanMessage\<close>. The message is a pointer: \<^term>\<open>None\<close> is
  \<^verbatim>\<open>nil\<close>.\<close>

definition CleaningStdioTransport_cleanMessage ::
  "'v jsonlib \<Rightarrow> BaseJsonRpcMessage option \<Rightarrow> BaseJsonRpcMessage option"
where
  "CleaningStdioTransport_cleanMessage L msg =
     (case msg of
        None \<Rightarrow> msg
      | Some m \<Rightarrow>
          (case JsonRpcRequest m of
             None \<Rightarrow> msg
           | Some req \<Rightarrow>
               if length (req_Params req) = 0 then msg
               else
                 (case UnmarshalMap L (req_Params req) of
                    Inl err \<Rightarrow> msg
                  | Inr params \<Rightarrow>
                      (let cleaned = removeNulls params
                       in if length cleaned = 0 then Some (setParams m req ''{}'')
                          else
                            (case MarshalMap L cleaned of
                               Inl err \<Rightarrow> msg
                             | Inr newParams \<Rightarrow> Some (setParams m req newParams))))))"

text \<open>\<^verbatim>\<open>SSEClientTransport.cleanMessage\<close>: no branch for the emptied map.\<close>

definition SSEClientTransport_cleanMessage ::
  "'v jsonlib \<Rightarrow> BaseJsonRpcMessage option \<Rightarrow> BaseJsonRpcMessage option"
where
  "SSEClientTransport_cleanMessage L msg =
     (case msg of
        None \<Rightarrow> msg
      | Some m \<Rightarrow>
          (case JsonRpcRequest m of
             None \<Rightarrow> msg
           | Some req \<Rightarrow>
               if length (req_Params req) = 0 then msg
               else
                 (case UnmarshalMap L (req_Params req) of
                    Inl err \<Rightarrow> msg
                  | Inr params \<Rightarrow>
                      (let cleaned = removeNulls params
                       in case MarshalMap L cleaned of
                            Inl err \<Rightarrow> msg
                          | Inr newParams \<Rightarrow> Some (setParams m req newParams)))))"

text \<open>\<^verbatim>\<open>TraditionalSSETransport.cleanMessage\<close>.\<close>

definition TraditionalSSETransport_cleanMessage ::
  "'v jsonlib \<Rightarrow> BaseJsonRpcMessage option \<Rightarrow> BaseJsonRpcMessage option"
where
  "TraditionalSSETransport_cleanMessage L msg =
     (case msg of
        None \<Rightarrow> msg
      | Some m \<Rightarrow>
          (case JsonRpcRequest m of
             None \<Rightarrow> msg
           | Some req \<Rightarrow>
               if length (req_Params req) = 0 then msg
               else
                 (case UnmarshalMap L (req_Params req) of
                    Inl err \<Rightarrow> msg
                  | Inr params \<Rightarrow>
                      (let cleaned = removeNulls params
                       in if length cleaned = 0 then Some (setParams m req ''{}'')
                          else
                            (case MarshalMap L cleaned of
                               Inl err \<Rightarrow> msg
                             | Inr newParams \<Rightarrow> Some (setParams m req newParams))))))"


subsection \<open>An instance of the library parameters\<close>

text \<open>For evaluating the normalizer on concrete bytes: a decoder built on
  \<^term>\<open>objectMembers\<close> that keeps every value other than \<^verbatim>\<open>null\<close> as the bytes that spell
  it, and an encoder that writes those bytes back. A repeated key keeps its last
  value, as a map does.\<close>

definition quoteString :: "string \<Rightarrow> string" where
  "quoteString k =
     [CHR 0x22] @ concat (map (\<lambda>c. if c = CHR 0x22 \<or> c = CHR 0x5C then [CHR 0x5C, c] else [c]) k)
       @ [CHR 0x22]"

fun entriesOf :: "(string \<times> string) list \<Rightarrow> (string \<times> string iface) list option" where
  "entriesOf [] = Some []"
| "entriesOf ((k, raw) # ms) =
     (case (unquote k, entriesOf ms) of
        (Some key, Some es) \<Rightarrow>
          Some (if key \<in> fst ` set es then es
                else (key, if raw = ''null'' then Nil else Val raw) # es)
      | _ \<Rightarrow> None)"

definition rawUnmarshalMap :: "string \<Rightarrow> string + (string \<times> string iface) list" where
  "rawUnmarshalMap p =
     (if HasPrefix (skipWS p) ''null'' \<and> skipWS (drop 4 (skipWS p)) = [] then Inr []
      else case Option.bind (objectMembers p) entriesOf of
             None \<Rightarrow> Inl ''json: cannot unmarshal into Go value of type map[string]interface {}''
           | Some es \<Rightarrow> Inr es)"

definition rawLib :: "string jsonlib" where
  "rawLib = \<lparr>UnmarshalMap = rawUnmarshalMap, appendString = quoteString, encodeValue = Inr\<rparr>"

section \<open>HTTP as the transports use it\<close>

text \<open>\<^verbatim>\<open>textproto.CanonicalMIMEHeaderKey\<close>, which \<^verbatim>\<open>Header.Set\<close> and \<^verbatim>\<open>Header.Get\<close> apply
  to the key: a key made of header-field bytes only gets an upper-case letter first
  and after every dash and lower-case letters elsewhere; any other key is left as it
  is.\<close>

definition isLower :: "char \<Rightarrow> bool" where
  "isLower c = (c \<in> set ''abcdefghijklmnopqrstuvwxyz'')"

definition isUpper :: "char \<Rightarrow> bool" where
  "isUpper c = (c \<in> set ''ABCDEFGHIJKLMNOPQRSTUVWXYZ'')"

definition validHeaderFieldByte :: "char \<Rightarrow> bool" where
  "validHeaderFieldByte c =
     (isLower c \<or> isUpper c \<or> isDigit c \<or>
      c \<in> set [CHR ''!'', CHR ''#'', CHR ''$'', CHR ''%'', CHR ''&'', CHR 0x27, CHR ''*'', CHR ''+'',
                 CHR ''-'', CHR ''.'', CHR ''^'', CHR ''_'', CHR 0x60, CHR ''|'', CHR ''~''])"

fun canonicalCase :: "bool \<Rightarrow> string \<Rightarrow> string" where
  "canonicalCase upper [] = []"
| "canonicalCase upper (c # cs) =
     (let c' = (if upper \<and> isLower c then char_of (of_char c - (32 :: nat))
                else if \<not> upper \<and> isUpper c then char_of (of_char c + (32 :: nat))
                else c)
      in c' # canonicalCase (c' = CHR ''-'') cs)"

definition CanonicalMIMEHeaderKey :: "string \<Rightarrow> string" where
  "CanonicalMIMEHeaderKey k = (if list_all validHeaderFieldByte k then canonicalCase True k else k)"

text \<open>An \<^verbatim>\<open>http.Header\<close>, by canonical key; of the values of a key only the first, which
  is the one \<^verbatim>\<open>Get\<close> returns and the only one \<^verbatim>\<open>Set\<close> leaves.\<close>

type_synonym Header = "string \<rightharpoonup> string"

definition Header_Set :: "Header \<Rightarrow> string \<Rightarrow> string \<Rightarrow> Header" where
  "Header_Set h key val = h(CanonicalMIMEHeaderKey key \<mapsto> val)"

definition Header_Get :: "Header \<Rightarrow> string \<Rightarrow> string" where
  "Header_Get h key = (case h (CanonicalMIMEHeaderKey key) of None \<Rightarrow> [] | Some v \<Rightarrow> v)"

text \<open>A response body that ends: the bytes read from it up to its end, and the error
  that ended the reading when that was not the end of the stream. (On a body that the
  server never ends no reader returns; such a body has no value here.)\<close>

record Body =
  content :: string
  readError :: "string option"

record HTTPRequest =
  rq_Method :: string
  rq_URL :: string
  rq_Header :: Header
  rq_Body :: string

record HTTPResponse =
  StatusCode :: int
  rs_Header :: Header
  rs_Body :: Body

text \<open>What lies outside the transports, as parameters of every call: the encoding of
  the whole message (\<^verbatim>\<open>json.Marshal(message)\<close>, through the library's own method),
  the error of \<^verbatim>\<open>http.NewRequestWithContext\<close> for a method and a URL (\<^term>\<open>None\<close> when
  the request is built), and the exchange \<^verbatim>\<open>t.client.Do(req)\<close>, which fails or gives
  the response.\<close>

record world =
  MarshalMessage :: "BaseJsonRpcMessage option \<Rightarrow> string + string"
  NewRequestError :: "string \<Rightarrow> string \<Rightarrow> string option"
  Do :: "HTTPRequest \<Rightarrow> string + HTTPResponse"

text \<open>The loop \<^verbatim>\<open>for key, value := range t.headers { req.Header.Set(key, value) }\<close>.\<close>

definition setHeaders :: "Header \<Rightarrow> (string \<times> string) list \<Rightarrow> Header" where
  "setHeaders h kvs = foldl (\<lambda>h' (key, val). Header_Set h' key val) h kvs"

section \<open>Reading an event stream line by line\<close>

text \<open>\<^verbatim>\<open>bufio.Scanner\<close> with its default split function \<^verbatim>\<open>ScanLines\<close>: the lines of the
  input without their end-of-line marker (a newline, with one carriage return before
  it dropped); a last line without newline counts when it is not empty. The scanner
  holds at most \<^verbatim>\<open>MaxScanTokenSize\<close> bytes; when that many bytes hold no newline it
  stops with \<^verbatim>\<open>ErrTooLong\<close>. The first argument of \<^term>\<open>scanLines\<close> is the line being
  read, reversed; the boolean of the result tells whether the scanner stopped so.\<close>

definition MaxScanTokenSize :: int where
  "MaxScanTokenSize = 64 * 1024"

definition dropCR :: "string \<Rightarrow> string" where
  "dropCR l = (if l \<noteq> [] \<and> last l = CHR 0x0D then butlast l else l)"

fun scanLines :: "string \<Rightarrow> string \<Rightarrow> string list \<times> bool" where
  "scanLines acc [] =
     (if MaxScanTokenSize \<le> int (length acc) then ([], True)
      else if acc = [] then ([], False)
      else ([dropCR (rev acc)], False))"
| "scanLines acc (c # cs) =
     (if MaxScanTokenSize \<le> int (length acc) then ([], True)
      else if c = CHR 0x0A then
        (case scanLines [] cs of (ls, tooLong) \<Rightarrow> (dropCR (rev acc) # ls, tooLong))
      else scanLines (c # acc) cs)"

definition ErrTooLong :: string where
  "ErrTooLong = ''bufio.Scanner: token too long''"

text \<open>\<^verbatim>\<open>scanner.Err()\<close> once \<^verbatim>\<open>scanner.Scan()\<close> has returned false.\<close>

definition Scanner_Err :: "Body \<Rightarrow> error option" where
  "Scanner_Err b =
     (if snd (scanLines [] (content b)) then Some (LibraryError ErrTooLong)
      else map_option LibraryError (readError b))"

section \<open>The streamable transport\<close>

record 's SSEClientTransport =
  baseURL :: string
  messageHandler :: "(BaseJsonRpcMessage \<Rightarrow> 's \<Rightarrow> 's) option"
  errorHandler :: "(error \<Rightarrow> 's \<Rightarrow> 's) option"
  closeHandler :: "('s \<Rightarrow> 's) option"
  headers :: "(string \<times> string) list"
  sessionID :: string

definition NewSSEClientTransport :: "string \<Rightarrow> 's SSEClientTransport" where
  "NewSSEClientTransport url =
     \<lparr>baseURL = url, messageHandler = None, errorHandler = None, closeHandler = None,
      headers = [], sessionID = []\<rparr>"

text \<open>\<^verbatim>\<open>t.headers[key] = value\<close>.\<close>

definition WithHeader :: "'s SSEClientTransport \<Rightarrow> string \<Rightarrow> string \<Rightarrow> 's SSEClientTransport" where
  "WithHeader t key val = t\<lparr>headers := AList.update key val (headers t)\<rparr>"

definition SetMessageHandler ::
  "'s SSEClientTransport \<Rightarrow> (BaseJsonRpcMessage \<Rightarrow> 's \<Rightarrow> 's) option \<Rightarrow> 's SSEClientTransport" where
  "SetMessageHandler t handler = t\<lparr>messageHandler := handler\<rparr>"

definition SetErrorHandler ::
  "'s SSEClientTransport \<Rightarrow> (error \<Rightarrow> 's \<Rightarrow> 's) option \<Rightarrow> 's SSEClientTransport" where
  "SetErrorHandler t handler = t\<lparr>errorHandler := handler\<rparr>"

definition SetCloseHandler ::
  "'s SSEClientTransport \<Rightarrow> ('s \<Rightarrow> 's) option \<Rightarrow> 's SSEClientTransport" where
  "SetCloseHandler t handler = t\<lparr>closeHandler := handler\<rparr>"

text \<open>The loop of \<^verbatim>\<open>SSEClientTransport.parseSSEResponse\<close> over the scanned lines, with
  the accumulated \<^verbatim>\<open>dataLines\<close>. \<^term>\<open>Inl\<close> is the \<^verbatim>\<open>return err\<close> inside the loop,
  \<^term>\<open>Inr\<close> the \<^verbatim>\<open>dataLines\<close> with which the loop ends.\<close>

fun sseLoop ::
  "decoders \<Rightarrow> (BaseJsonRpcMessage \<Rightarrow> 's \<Rightarrow> 's) option \<Rightarrow> string list \<Rightarrow> string list \<Rightarrow> 's
     \<Rightarrow> (error + string list) \<times> 's"
where
  "sseLoop D handler dataLines [] s = (Inr dataLines, s)"
| "sseLoop D handler dataLines (line # ls) s =
     (if HasPrefix line ''data: '' then
        sseLoop D handler (dataLines @ [TrimPrefix line ''data: '']) ls s
      else if line = [] \<and> length dataLines > 0 then
        (case handleJSONResponse D handler (Join dataLines [CHR 0x0A]) s of
           (Some err, s') \<Rightarrow> (Inl err, s')
         | (None, s') \<Rightarrow> sseLoop D handler [] ls s')
      else sseLoop D handler dataLines ls s)"

definition parseSSEResponse ::
  "decoders \<Rightarrow> (BaseJsonRpcMessage \<Rightarrow> 's \<Rightarrow> 's) option \<Rightarrow> Body \<Rightarrow> 's \<Rightarrow> error option \<times> 's"
where
  "parseSSEResponse D handler reader s =
     (case sseLoop D handler [] (fst (scanLines [] (content reader))) s of
        (Inl err, s') \<Rightarrow> (Some err, s')
      | (Inr dataLines, s') \<Rightarrow>
          if length dataLines > 0 then handleJSONResponse D handler (Join dataLines [CHR 0x0A]) s'
          else (Scanner_Err reader, s'))"

text \<open>\<^verbatim>\<open>SSEClientTransport.Send\<close>. The result is the returned error, the transport and
  the handler's state after the call, and the requests handed to \<^verbatim>\<open>t.client.Do\<close>.\<close>

definition SSEClientTransport_buildRequest :: "'s SSEClientTransport \<Rightarrow> string \<Rightarrow> HTTPRequest" where
  "SSEClientTransport_buildRequest t jsonData =
     (let h0 = Header_Set (Header_Set Map.empty ''Content-Type'' ''application/json'')
                 ''Accept'' ''application/json, text/event-stream'';
          h1 = setHeaders h0 (headers t);
          h2 = (if sessionID t \<noteq> [] then Header_Set h1 ''Mcp-Session-Id'' (sessionID t) else h1)
      in \<lparr>rq_Method = ''POST'', rq_URL = baseURL t, rq_Header = h2, rq_Body = jsonData\<rparr>)"

text \<open>The transport once the session header of a response has been looked at:
  \<^verbatim>\<open>if sid := resp.Header.Get("Mcp-Session-Id"); sid != "" { t.sessionID = sid }\<close>.\<close>

definition captureSession :: "'s SSEClientTransport \<Rightarrow> HTTPResponse \<Rightarrow> 's SSEClientTransport" where
  "captureSession t resp =
     (let sid = Header_Get (rs_Header resp) ''Mcp-Session-Id''
      in if sid \<noteq> [] then t\<lparr>sessionID := sid\<rparr> else t)"

definition SSEClientTransport_Send ::
  "'v jsonlib \<Rightarrow> decoders \<Rightarrow> world \<Rightarrow> 's SSEClientTransport \<Rightarrow> BaseJsonRpcMessage option \<Rightarrow> 's
     \<Rightarrow> error option \<times> 's SSEClientTransport \<times> 's \<times> HTTPRequest list"
where
  "SSEClientTransport_Send L D W t message s =
     (case MarshalMessage W (SSEClientTransport_cleanMessage L message) of
        Inl err \<Rightarrow> (Some (FailedToMarshalMessage err), t, s, [])
      | Inr jsonData \<Rightarrow>
          (case NewRequestError W ''POST'' (baseURL t) of
             Some err \<Rightarrow> (Some (FailedToCreateRequest err), t, s, [])
           | None \<Rightarrow>
               (let req = SSEClientTransport_buildRequest t jsonData
                in case Do W req of
                     Inl err \<Rightarrow> (Some (FailedToSendRequest err), t, s, [req])
                   | Inr resp \<Rightarrow>
                       (let t' = captureSession t resp
                        in if StatusCode resp \<noteq> 200 then
                             (Some (ServerReturnedError (content (rs_Body resp)) (StatusCode resp)),
                              t', s, [req])
                           else if Contains (Header_Get (rs_Header resp) ''Content-Type'')
                                     ''text/event-stream'' then
                             (case parseSSEResponse D (messageHandler t') (rs_Body resp) s of
                                (e, s') \<Rightarrow> (e, t', s', [req]))
                           else
                             (case readError (rs_Body resp) of
                                Some err \<Rightarrow> (Some (FailedToReadResponse err), t', s, [req])
                              | None \<Rightarrow>
                                  if length (content (rs_Body resp)) > 0 then
                                    (case handleJSONResponse D (messageHandler t')
                                            (content (rs_Body resp)) s of
                                       (e, s') \<Rightarrow> (e, t', s', [req]))
                                  else (None, t', s, [req]))))))"

section \<open>The discovery-stream transport\<close>

record 's TraditionalSSETransport =
  sseURL :: string
  postEndpoint :: string
  tr_messageHandler :: "(BaseJsonRpcMessage \<Rightarrow> 's \<Rightarrow> 's) option"
  tr_errorHandler :: "(error \<Rightarrow> 's \<Rightarrow> 's) option"
  tr_closeHandler :: "('s \<Rightarrow> 's) option"
  tr_headers :: "(string \<times> string) list"
  sseResp :: "HTTPResponse option"
  started :: bool

definition NewTraditionalSSETransport :: "string \<Rightarrow> 's TraditionalSSETransport" where
  "NewTraditionalSSETransport url =
     \<lparr>sseURL = url, postEndpoint = [], tr_messageHandler = None, tr_errorHandler = None,
      tr_closeHandler = None, tr_headers = [], sseResp = None, started = False\<rparr>"

text \<open>How the \<^verbatim>\<open>select\<close> at the end of \<^verbatim>\<open>Start\<close> ends: with the endpoint that the
  background reader sent, with the reader's error, with the context done, or not at
  all, when none of the three channels ever becomes ready (a stream that ends without
  endpoint event and without error, under a context that is never done). Which one is
  for the stream, the scheduler and the caller's deadline to decide, so it is a
  parameter of the call.\<close>

datatype handshake =
  EndpointReceived string | ReaderFailed string | ContextDone string | NothingReady

text \<open>The request that \<^verbatim>\<open>Start\<close> builds.\<close>

definition TraditionalSSETransport_startRequest :: "'s TraditionalSSETransport \<Rightarrow> HTTPRequest" where
  "TraditionalSSETransport_startRequest t =
     (let h0 = Header_Set (Header_Set Map.empty ''Accept'' ''text/event-stream'')
                 ''Cache-Control'' ''no-cache''
      in \<lparr>rq_Method = ''GET'', rq_URL = sseURL t,
          rq_Header = setHeaders h0 (tr_headers t), rq_Body = []\<rparr>)"

text \<open>\<^verbatim>\<open>TraditionalSSETransport.Start\<close>: the returned error, the transport after the call
  and the requests handed to \<^verbatim>\<open>t.client.Do\<close>; \<^term>\<open>None\<close> when the call does not
  return.\<close>

definition TraditionalSSETransport_Start ::
  "world \<Rightarrow> handshake \<Rightarrow> 's TraditionalSSETransport
     \<Rightarrow> (error option \<times> 's TraditionalSSETransport \<times> HTTPRequest list) option"
where
  "TraditionalSSETransport_Start W hs t =
     (if started t then Some (None, t, [])
      else
        (case NewRequestError W ''GET'' (sseURL t) of
           Some err \<Rightarrow> Some (Some (FailedToCreateSSERequest err), t, [])
         | None \<Rightarrow>
             (let req = TraditionalSSETransport_startRequest t
              in case Do W req of
                   Inl err \<Rightarrow> Some (Some (FailedToConnectToSSEEndpoint err), t, [req])
                 | Inr resp \<Rightarrow>
                     if StatusCode resp \<noteq> 200 then
                       Some (Some (SSEConnectionFailed (content (rs_Body resp)) (StatusCode resp)),
                             t, [req])
                     else
                       (let contentType = Header_Get (rs_Header resp) ''Content-Type''
                        in if \<not> Contains contentType ''text/event-stream'' then
                             Some (Some (UnexpectedContentType contentType), t, [req])
                           else
                             (let t1 = t\<lparr>sseResp := Some resp, started := True\<rparr>
                              in case hs of
                                   EndpointReceived endpoint \<Rightarrow>
                                     Some (None,
                                           t1\<lparr>postEndpoint := resolveEndpoint (sseURL t1) endpoint\<rparr>,
                                           [req])
                                 | ReaderFailed err \<Rightarrow> Some (Some (FailedToGetEndpoint err), t1, [req])
                                 | ContextDone err \<Rightarrow> Some (Some (LibraryError err), t1, [req])
                                 | NothingReady \<Rightarrow> None)))))"

text \<open>\<^verbatim>\<open>TraditionalSSETransport.Send\<close>; it leaves the transport as it is.\<close>

definition TraditionalSSETransport_Send ::
  "'v jsonlib \<Rightarrow> world \<Rightarrow> 's TraditionalSSETransport \<Rightarrow> BaseJsonRpcMessage option
     \<Rightarrow> error option \<times> HTTPRequest list"
where
  "TraditionalSSETransport_Send L W t message =
     (let endpoint = postEndpoint t
      in if endpoint = [] then (Some TransportNotStarted, [])
         else
           (case MarshalMessage W (TraditionalSSETransport_cleanMessage L message) of
              Inl err \<Rightarrow> (Some (FailedToMarshalMessage err), [])
            | Inr jsonData \<Rightarrow>
                (case NewRequestError W ''POST'' endpoint of
                   Some err \<Rightarrow> (Some (FailedToCreateRequest err), [])
                 | None \<Rightarrow>
                     (let h0 = Header_Set Map.empty ''Content-Type'' ''application/json'';
                          req = \<lparr>rq_Method = ''POST'', rq_URL = endpoint,
                                 rq_Header = setHeaders h0 (tr_headers t), rq_Body = jsonData\<rparr>
                      in case Do W req of
                           Inl err \<Rightarrow> (Some (FailedToSendRequest err), [req])
                         | Inr resp \<Rightarrow>
                             if StatusCode resp \<noteq> 200 \<and> StatusCode resp \<noteq> 202 then
                               (Some (ServerReturnedError (content (rs_Body resp)) (StatusCode resp)),
                                [req])
                             else (None, [req])))))"

text \<open>\<^verbatim>\<open>TraditionalSSETransport.Close\<close>.\<close>

definition TraditionalSSETransport_Close ::
  "'s TraditionalSSETransport \<Rightarrow> 's \<Rightarrow> error option \<times> 's TraditionalSSETransport \<times> 's"
where
  "TraditionalSSETransport_Close t s =
     (None, t\<lparr>sseResp := None\<rparr>, (case tr_closeHandler t of None \<Rightarrow> s | Some c \<Rightarrow> c s))"

subsection \<open>The payloads of the test table\<close>

definition payloadResponse :: string where
  \<open>payloadResponse = ''{"jsonrpc":"2.0","id":1,"result":{}}''\<close>


definition payloadNotification :: string where
  \<open>payloadNotification = ''{"jsonrpc":"2.0","method":"ping"}''\<close>



subsection \<open>Requests on which the normalizer is evaluated\<close>

definition listRequest :: "string \<Rightarrow> BaseJSONRPCRequest" where
  "listRequest p = \<lparr>req_Id = 1, req_Jsonrpc = ''2.0'', req_Method = ''tools/list'', req_Params = p\<rparr>"

definition paramsCursorNull :: string where
  \<open>paramsCursorNull = ''{"cursor":null}''\<close>

definition paramsTwoNulls :: string where
  \<open>paramsTwoNulls = ''{"cursor":null,"limit":null}''\<close>




section \<open>Concrete surroundings for evaluating the transports\<close>

text \<open>A handler that records the messages it is given, in order.\<close>

definition record_message :: "BaseJsonRpcMessage \<Rightarrow> BaseJsonRpcMessage list \<Rightarrow> BaseJsonRpcMessage list" where
  "record_message m received = received @ [m]"

text \<open>A server reached at every URL that answers every request with the given
  response; the message is encoded as the fixed bytes \<^verbatim>\<open>{}\<close>.\<close>

definition serving :: "HTTPResponse \<Rightarrow> world" where
  "serving resp =
     \<lparr>MarshalMessage = (\<lambda>m. Inr ''{}''), NewRequestError = (\<lambda>method url. None),
      Do = (\<lambda>req. Inr resp)\<rparr>"

definition unreachable :: world where
  "unreachable =
     \<lparr>MarshalMessage = (\<lambda>m. Inr ''{}''), NewRequestError = (\<lambda>method url. None),
      Do = (\<lambda>req. Inl ''connection refused'')\<rparr>"

definition eventStream :: "string \<Rightarrow> HTTPResponse" where
  "eventStream bytes =
     \<lparr>StatusCode = 200, rs_Header = [''Content-Type'' \<mapsto> ''text/event-stream''],
      rs_Body = \<lparr>content = bytes, readError = None\<rparr>\<rparr>"

definition sessionResponse :: "string \<Rightarrow> HTTPResponse" where
  "sessionResponse sid =
     \<lparr>StatusCode = 200,
      rs_Header = [''Content-Type'' \<mapsto> ''application/json'', ''Mcp-Session-Id'' \<mapsto> sid],
      rs_Body = \<lparr>content = [], readError = None\<rparr>\<rparr>"

text \<open>The transport for \<^verbatim>\<open>https://h/sse\<close> after a \<^verbatim>\<open>Start\<close> that received the endpoint
  \<^verbatim>\<open>/rpc\<close>, and after a \<^verbatim>\<open>Start\<close> whose context ended before any endpoint came.\<close>

definition startedOnce :: "unit TraditionalSSETransport" where
  "startedOnce =
     (NewTraditionalSSETransport ''https://h/sse'')
       \<lparr>sseResp := Some (eventStream []), started := True, postEndpoint := ''https://h/rpc''\<rparr>"

definition failedStart :: "unit TraditionalSSETransport" where
  "failedStart =
     (NewTraditionalSSETransport ''https://h/sse'')
       \<lparr>sseResp := Some (eventStream []), started := True\<rparr>"

section \<open>The events of a stream body\<close>

text \<open>The payloads that \<^verbatim>\<open>parseSSEResponse\<close> hands to \<^verbatim>\<open>handleJSONResponse\<close> when no call
  fails, in order: the joined data lines of every event that a blank line ends, and of
  the data lines left when the input ends.\<close>

fun eventsFrom :: "string list \<Rightarrow> string list \<Rightarrow> string list" where
  "eventsFrom dataLines [] = (if dataLines = [] then [] else [Join dataLines [CHR 0x0A]])"
| "eventsFrom dataLines (line # ls) =
     (if HasPrefix line ''data: '' then eventsFrom (dataLines @ [TrimPrefix line ''data: '']) ls
      else if line = [] \<and> dataLines \<noteq> [] then Join dataLines [CHR 0x0A] # eventsFrom [] ls
      else eventsFrom dataLines ls)"

definition events :: "string \<Rightarrow> string list" where
  "events bytes = eventsFrom [] (fst (scanLines [] bytes))"

text \<open>A payload that some step of the cascade accepts.\<close>

definition classifies :: "decoders \<Rightarrow> string \<Rightarrow> bool" where
  "classifies D p = (case classify D p of Classified v m \<Rightarrow> True | ClassificationError raw \<Rightarrow> False)"

text \<open>The handler's state after the payloads have been handed to
  \<^verbatim>\<open>handleJSONResponse\<close> one after the other.\<close>

definition deliver ::
  "decoders \<Rightarrow> (BaseJsonRpcMessage \<Rightarrow> 's \<Rightarrow> 's) \<Rightarrow> string list \<Rightarrow> 's \<Rightarrow> 's" where
  "deliver D h ps s = foldl (\<lambda>s' p. snd (handleJSONResponse D (Some h) p s')) s ps"

text \<open>A new streamable transport with the recording handler registered.\<close>

definition listening :: "BaseJsonRpcMessage list SSEClientTransport" where
  "listening = SetMessageHandler (NewSSEClientTransport ''https://h/mcp'') (Some record_message)"

definition newline :: string where
  "newline = [CHR 0x0A]"

text \<open>Stream bodies: an event that no decoder accepts followed by a Response event, and
  the same with a Response event before them.\<close>

definition streamBadGood :: string where
  "streamBadGood =
     ''data: oops'' @ newline @ newline @ ''data: '' @ payloadResponse @ newline @ newline"

definition streamGoodBadGood :: string where
  "streamGoodBadGood =
     ''data: '' @ payloadNotification @ newline @ newline @ streamBadGood"

definition plainResponse :: "string \<Rightarrow> HTTPResponse" where
  "plainResponse bytes =
     \<lparr>StatusCode = 200, rs_Header = [''Content-Type'' \<mapsto> ''application/json''],
      rs_Body = \<lparr>content = bytes, readError = None\<rparr>\<rparr>"

text \<open>A new streamable transport without handler, the message sent in the examples, and
  the requests of a call of \<^verbatim>\<open>Send\<close>.\<close>

definition fresh :: "unit SSEClientTransport" where
  "fresh = NewSSEClientTransport ''https://h/mcp''"

definition listMessage :: "BaseJsonRpcMessage option" where
  "listMessage = Some (NewBaseMessageRequest (listRequest paramsCursorNull))"

definition requestsOf :: "error option \<times> 's SSEClientTransport \<times> 's \<times> HTTPRequest list \<Rightarrow> HTTPRequest list" where
  "requestsOf r = snd (snd (snd r))"

section \<open>Verified properties\<close>

subsection \<open>The classifier\<close>

lemma handleJSONResponse_classify:
  "handleJSONResponse D (Some h) body s =
     (case classify D body of
        Classified v m \<Rightarrow> (None, h m s)
      | ClassificationError raw \<Rightarrow> (Some (ReceivedInvalidResponse raw), s))"
  by (simp add: handleJSONResponse_def classify_def accepts_def decodeAs_def attempt_def marker_def
       NewBaseMessageResponse_def NewBaseMessageError_def NewBaseMessageNotification_def
       NewBaseMessageRequest_def
     split: sum.splits option.splits)








subsection \<open>Endpoint resolution\<close>

lemma resolveEndpoint_absolute:
  "HasPrefix endpoint ''http://'' \<or> HasPrefix endpoint ''https://''
     \<Longrightarrow> resolveEndpoint url endpoint = endpoint"
  by (simp add: resolveEndpoint_def)

text \<open>Claim C5. With the stream opened at \<^verbatim>\<open>https://h/sse\<close>, the endpoints \<^verbatim>\<open>/msg\<close> and
  \<^verbatim>\<open>msg\<close> both resolve to \<^verbatim>\<open>https://h/msg\<close>, and \<^verbatim>\<open>https://other/x\<close> resolves to itself;
  whatever the URL of the stream, an endpoint that starts with \<^verbatim>\<open>http://\<close> or
  \<^verbatim>\<open>https://\<close> is returned unchanged.\<close>

theorem resolveEndpoint_examples:
  "resolveEndpoint ''https://h/sse'' ''/msg'' = ''https://h/msg''
   \<and> resolveEndpoint ''https://h/sse'' ''msg'' = ''https://h/msg''
   \<and> resolveEndpoint ''https://h/sse'' ''https://other/x'' = ''https://other/x''
   \<and> (HasPrefix endpoint ''http://'' \<or> HasPrefix endpoint ''https://''
        \<longrightarrow> resolveEndpoint url endpoint = endpoint)"
proof -
  have "resolveEndpoint ''https://h/sse'' ''/msg'' = ''https://h/msg''" by code_simp
  moreover have "resolveEndpoint ''https://h/sse'' ''msg'' = ''https://h/msg''" by code_simp
  moreover have "resolveEndpoint ''https://h/sse'' ''https://other/x'' = ''https://other/x''"
    by code_simp
  ultimately show ?thesis using resolveEndpoint_absolute by blast
qed

theorem resolveEndpoint_examples_witness:
  "HasPrefix ''http://127.0.0.1:8080/messages?sid=7'' ''http://''
   \<and> resolveEndpoint ''https://h/sse'' ''http://127.0.0.1:8080/messages?sid=7''
       = ''http://127.0.0.1:8080/messages?sid=7''"
proof -
  have p: "HasPrefix ''http://127.0.0.1:8080/messages?sid=7'' ''http://''"
    by (simp add: HasPrefix_def)
  from resolveEndpoint_examples [of "''http://127.0.0.1:8080/messages?sid=7''" "''https://h/sse''"] p
  show ?thesis by blast
qed

subsection \<open>The normalizer\<close>

lemma MarshalMap_empty: "MarshalMap L [] = Inr ''{}''"
  by (simp add: MarshalMap_def)

lemma removeNulls_only_nulls:
  assumes "snd ` set params = {Nil}"
  shows "removeNulls params = []"
proof -
  have "v = Nil" if "(k, v) \<in> set params" for k v
  proof -
    from that have "snd (k, v) \<in> snd ` set params" by (rule imageI)
    with assms show ?thesis by simp
  qed
  then show ?thesis
    by (auto simp: removeNulls_def filter_empty_conv)
qed


lemma SSE_cleanMessage_eq_Stdio:
  "SSEClientTransport_cleanMessage L msg = CleaningStdioTransport_cleanMessage L msg"
  by (simp add: SSEClientTransport_cleanMessage_def CleaningStdioTransport_cleanMessage_def
        Let_def MarshalMap_empty
      split: option.splits sum.splits)

lemma Traditional_cleanMessage_eq_Stdio:
  "TraditionalSSETransport_cleanMessage L msg = CleaningStdioTransport_cleanMessage L msg"
  by (simp add: TraditionalSSETransport_cleanMessage_def CleaningStdioTransport_cleanMessage_def)

lemma Stdio_cleanMessage_emptied:
  assumes "JsonRpcRequest m = Some req" and "req_Params req \<noteq> []"
    and "UnmarshalMap L (req_Params req) = Inr params" and "removeNulls params = []"
  shows "CleaningStdioTransport_cleanMessage L (Some m) = Some (setParams m req ''{}'')"
  using assms by (simp add: CleaningStdioTransport_cleanMessage_def)

text \<open>Claim C9. The three \<^verbatim>\<open>cleanMessage\<close> functions return the same message for every
  message and every behaviour of the library: the one of \<^verbatim>\<open>SSEClientTransport\<close> has no
  branch for the emptied map, but encoding the empty map gives \<^verbatim>\<open>{}\<close>, so it also sets
  the parameters to \<^verbatim>\<open>{}\<close> whenever removing the nulls leaves no entry.\<close>

theorem cleanMessage_implementations_agree:
  "SSEClientTransport_cleanMessage L msg = CleaningStdioTransport_cleanMessage L msg
   \<and> TraditionalSSETransport_cleanMessage L msg = CleaningStdioTransport_cleanMessage L msg
   \<and> MarshalMap L [] = Inr ''{}''
   \<and> (JsonRpcRequest m = Some req \<and> req_Params req \<noteq> []
        \<and> UnmarshalMap L (req_Params req) = Inr params \<and> removeNulls params = []
      \<longrightarrow> SSEClientTransport_cleanMessage L (Some m)
            = Some (m\<lparr>JsonRpcRequest := Some (req\<lparr>req_Params := ''{}''\<rparr>)\<rparr>))"
  using SSE_cleanMessage_eq_Stdio [of L] Traditional_cleanMessage_eq_Stdio [of L]
    MarshalMap_empty [of L] Stdio_cleanMessage_emptied [of m req L params]
  by (simp add: setParams_def)

lemma rawUnmarshalMap_cursor_null: "rawUnmarshalMap paramsCursorNull = Inr [(''cursor'', Nil)]"
  by code_simp

theorem cleanMessage_implementations_agree_witness:
  "JsonRpcRequest (NewBaseMessageRequest (listRequest paramsCursorNull))
      = Some (listRequest paramsCursorNull)
   \<and> req_Params (listRequest paramsCursorNull) \<noteq> []
   \<and> UnmarshalMap rawLib (req_Params (listRequest paramsCursorNull)) = Inr [(''cursor'', Nil)]
   \<and> removeNulls [(''cursor'', Nil :: string iface)] = []
   \<and> SSEClientTransport_cleanMessage rawLib
        (Some (NewBaseMessageRequest (listRequest paramsCursorNull)))
      = Some (NewBaseMessageRequest (listRequest ''{}''))"
proof -
  have a: "JsonRpcRequest (NewBaseMessageRequest (listRequest paramsCursorNull))
      = Some (listRequest paramsCursorNull)"
    by (simp add: NewBaseMessageRequest_def)
  have b: "req_Params (listRequest paramsCursorNull) \<noteq> []"
    by (simp add: listRequest_def paramsCursorNull_def)
  have c: "UnmarshalMap rawLib (req_Params (listRequest paramsCursorNull)) = Inr [(''cursor'', Nil)]"
    by (simp add: rawLib_def listRequest_def rawUnmarshalMap_cursor_null)
  have d: "removeNulls [(''cursor'', Nil :: string iface)] = []"
    by (simp add: removeNulls_def)
  have e: "(NewBaseMessageRequest (listRequest paramsCursorNull))
             \<lparr>JsonRpcRequest := Some ((listRequest paramsCursorNull)\<lparr>req_Params := ''{}''\<rparr>)\<rparr>
           = NewBaseMessageRequest (listRequest ''{}'')"
    by (simp add: NewBaseMessageRequest_def listRequest_def)
  have "SSEClientTransport_cleanMessage rawLib
          (Some (NewBaseMessageRequest (listRequest paramsCursorNull)))
        = Some ((NewBaseMessageRequest (listRequest paramsCursorNull))
             \<lparr>JsonRpcRequest := Some ((listRequest paramsCursorNull)\<lparr>req_Params := ''{}''\<rparr>)\<rparr>)"
    using cleanMessage_implementations_agree
         [of rawLib None "NewBaseMessageRequest (listRequest paramsCursorNull)"
             "listRequest paramsCursorNull" "[(''cursor'', Nil)]"]
       a b c d
    by blast
  with a b c d e show ?thesis by simp
qed

text \<open>Claim C3. For a Request whose parameter bytes decode to an object with at least one
  entry, all of them null, each of the three \<^verbatim>\<open>cleanMessage\<close> functions returns the
  request with its \<^verbatim>\<open>Params\<close> set to the two bytes \<^verbatim>\<open>{}\<close>: not the empty byte string,
  which is the value an omitted field has.\<close>

theorem only_nulls_params_become_empty_object:
  assumes "JsonRpcRequest m = Some req"
    and "req_Params req \<noteq> []"
    and "UnmarshalMap L (req_Params req) = Inr params"
    and "snd ` set params = {Nil}"
  shows "CleaningStdioTransport_cleanMessage L (Some m)
           = Some (m\<lparr>JsonRpcRequest := Some (req\<lparr>req_Params := ''{}''\<rparr>)\<rparr>)
         \<and> TraditionalSSETransport_cleanMessage L (Some m)
           = Some (m\<lparr>JsonRpcRequest := Some (req\<lparr>req_Params := ''{}''\<rparr>)\<rparr>)
         \<and> SSEClientTransport_cleanMessage L (Some m)
           = Some (m\<lparr>JsonRpcRequest := Some (req\<lparr>req_Params := ''{}''\<rparr>)\<rparr>)
         \<and> req_Params (req\<lparr>req_Params := ''{}''\<rparr>) = ''{}''"
proof -
  have "removeNulls params = []"
    using assms(4) by (rule removeNulls_only_nulls)
  with assms have "CleaningStdioTransport_cleanMessage L (Some m) = Some (setParams m req ''{}'')"
    by (simp add: Stdio_cleanMessage_emptied)
  then show ?thesis
    by (simp add: SSE_cleanMessage_eq_Stdio Traditional_cleanMessage_eq_Stdio setParams_def)
qed

lemma rawUnmarshalMap_two_nulls:
  "rawUnmarshalMap paramsTwoNulls = Inr [(''cursor'', Nil), (''limit'', Nil)]"
  by code_simp

theorem only_nulls_params_become_empty_object_witness:
  "JsonRpcRequest (NewBaseMessageRequest (listRequest paramsTwoNulls))
      = Some (listRequest paramsTwoNulls)
   \<and> req_Params (listRequest paramsTwoNulls) \<noteq> []
   \<and> UnmarshalMap rawLib (req_Params (listRequest paramsTwoNulls))
       = Inr [(''cursor'', Nil), (''limit'', Nil)]
   \<and> snd ` set [(''cursor'', Nil :: string iface), (''limit'', Nil)] = {Nil}
   \<and> CleaningStdioTransport_cleanMessage rawLib
        (Some (NewBaseMessageRequest (listRequest paramsTwoNulls)))
      = Some (NewBaseMessageRequest (listRequest ''{}''))
   \<and> TraditionalSSETransport_cleanMessage rawLib
        (Some (NewBaseMessageRequest (listRequest paramsTwoNulls)))
      = Some (NewBaseMessageRequest (listRequest ''{}''))
   \<and> SSEClientTransport_cleanMessage rawLib
        (Some (NewBaseMessageRequest (listRequest paramsTwoNulls)))
      = Some (NewBaseMessageRequest (listRequest ''{}''))"
proof -
  have a: "JsonRpcRequest (NewBaseMessageRequest (listRequest paramsTwoNulls))
      = Some (listRequest paramsTwoNulls)"
    by (simp add: NewBaseMessageRequest_def)
  have b: "req_Params (listRequest paramsTwoNulls) \<noteq> []"
    by (simp add: listRequest_def paramsTwoNulls_def)
  have c: "UnmarshalMap rawLib (req_Params (listRequest paramsTwoNulls))
       = Inr [(''cursor'', Nil), (''limit'', Nil)]"
    by (simp add: rawLib_def listRequest_def rawUnmarshalMap_two_nulls)
  have d: "snd ` set [(''cursor'', Nil :: string iface), (''limit'', Nil)] = {Nil}"
    by simp
  have e: "(NewBaseMessageRequest (listRequest paramsTwoNulls))
             \<lparr>JsonRpcRequest := Some ((listRequest paramsTwoNulls)\<lparr>req_Params := ''{}''\<rparr>)\<rparr>
           = NewBaseMessageRequest (listRequest ''{}'')"
    by (simp add: NewBaseMessageRequest_def listRequest_def)
  from only_nulls_params_become_empty_object [OF a b c d] a b c d show ?thesis
    unfolding e by blast
qed








subsection \<open>The discovery-stream transport\<close>

lemma Start_when_started:
  "started t \<Longrightarrow> TraditionalSSETransport_Start W hs t = Some (None, t, [])"
  by (simp add: TraditionalSSETransport_Start_def)

lemma Start_success_started:
  assumes "TraditionalSSETransport_Start W hs t = Some (None, t', reqs)"
  shows "started t'"
  using assms
  by (auto simp: TraditionalSSETransport_Start_def Let_def
           split: if_splits option.splits sum.splits handshake.splits)

lemma Close_keeps_started:
  "started (fst (snd (TraditionalSSETransport_Close t s))) = started t"
  by (simp add: TraditionalSSETransport_Close_def)

text \<open>Claim C7. When a call of \<^verbatim>\<open>Start\<close> has returned success, the transport is marked
  started, and every later call of \<^verbatim>\<open>Start\<close>, whatever the network and the stream would do
  and also after a \<^verbatim>\<open>Close\<close>, returns, with success, hands no request to the HTTP client
  and leaves every field of the transport (the resolved endpoint, the started flag, the
  open stream) as it was.\<close>

theorem Start_idempotent:
  assumes "TraditionalSSETransport_Start W hs t = Some (None, t', reqs)"
  shows "started t'
         \<and> TraditionalSSETransport_Start W' hs' t' = Some (None, t', [])
         \<and> TraditionalSSETransport_Start W' hs' (fst (snd (TraditionalSSETransport_Close t' s)))
             = Some (None, fst (snd (TraditionalSSETransport_Close t' s)), [])"
proof -
  have st: "started t'"
    using assms by (rule Start_success_started)
  then have "started (fst (snd (TraditionalSSETransport_Close t' s)))"
    by (simp add: Close_keeps_started)
  with st show ?thesis
    by (simp add: Start_when_started)
qed

lemma event_stream_contains: "Contains ''text/event-stream'' ''text/event-stream''"
  by code_simp

lemma canon_content_type: "CanonicalMIMEHeaderKey ''Content-Type'' = ''Content-Type''"
  by code_simp

lemma resolve_rpc: "resolveEndpoint ''https://h/sse'' ''/rpc'' = ''https://h/rpc''"
  by code_simp

lemma first_Start:
  "TraditionalSSETransport_Start (serving (eventStream [])) (EndpointReceived ''/rpc'')
     (NewTraditionalSSETransport ''https://h/sse'')
   = Some (None, startedOnce,
           [TraditionalSSETransport_startRequest
              (NewTraditionalSSETransport ''https://h/sse'' :: unit TraditionalSSETransport)])"
  by (simp add: startedOnce_def TraditionalSSETransport_Start_def NewTraditionalSSETransport_def
        serving_def eventStream_def Header_Get_def canon_content_type event_stream_contains
        resolve_rpc Let_def)

theorem Start_idempotent_witness:
  "TraditionalSSETransport_Start (serving (eventStream [])) (EndpointReceived ''/rpc'')
     (NewTraditionalSSETransport ''https://h/sse'')
   = Some (None, startedOnce,
           [TraditionalSSETransport_startRequest
              (NewTraditionalSSETransport ''https://h/sse'' :: unit TraditionalSSETransport)])
   \<and> postEndpoint startedOnce = ''https://h/rpc''
   \<and> started startedOnce
   \<and> TraditionalSSETransport_Start unreachable NothingReady startedOnce
       = Some (None, startedOnce, [])"
proof -
  have "postEndpoint startedOnce = ''https://h/rpc''"
    by (simp add: startedOnce_def)
  with Start_idempotent [OF first_Start, of unreachable NothingReady] first_Start
  show ?thesis by blast
qed

text \<open>Claim C6. On a transport whose \<^verbatim>\<open>postEndpoint\<close> is empty, as it is on a new one,
  \<^verbatim>\<open>Send\<close> returns the error \<^emph>\<open>transport not started or endpoint not received\<close> and hands
  no request to the HTTP client, whatever the message (a \<^verbatim>\<open>nil\<close> message included), the
  library and the network are.\<close>

theorem Send_without_endpoint:
  "(postEndpoint t = [] \<longrightarrow>
      TraditionalSSETransport_Send L W t message = (Some TransportNotStarted, []))
   \<and> TraditionalSSETransport_Send L W (NewTraditionalSSETransport url) message
       = (Some TransportNotStarted, [])"
  by (simp add: TraditionalSSETransport_Send_def NewTraditionalSSETransport_def)

lemma interrupted_Start:
  "TraditionalSSETransport_Start (serving (eventStream [])) (ContextDone ''context deadline exceeded'')
     (NewTraditionalSSETransport ''https://h/sse'')
   = Some (Some (LibraryError ''context deadline exceeded''), failedStart,
           [TraditionalSSETransport_startRequest
              (NewTraditionalSSETransport ''https://h/sse'' :: unit TraditionalSSETransport)])"
  by (simp add: failedStart_def TraditionalSSETransport_Start_def NewTraditionalSSETransport_def
        serving_def eventStream_def Header_Get_def canon_content_type event_stream_contains Let_def)

theorem Send_without_endpoint_witness:
  "TraditionalSSETransport_Start (serving (eventStream [])) (ContextDone ''context deadline exceeded'')
     (NewTraditionalSSETransport ''https://h/sse'')
   = Some (Some (LibraryError ''context deadline exceeded''), failedStart,
           [TraditionalSSETransport_startRequest
              (NewTraditionalSSETransport ''https://h/sse'' :: unit TraditionalSSETransport)])
   \<and> postEndpoint failedStart = []
   \<and> TraditionalSSETransport_Send rawLib (serving (sessionResponse ''s1'')) failedStart
        (Some (NewBaseMessageRequest (listRequest paramsCursorNull)))
      = (Some TransportNotStarted, [])"
proof -
  have e: "postEndpoint failedStart = []"
    by (simp add: failedStart_def NewTraditionalSSETransport_def)
  with Send_without_endpoint [of failedStart rawLib "serving (sessionResponse ''s1'')"
          "Some (NewBaseMessageRequest (listRequest paramsCursorNull))" "[]"]
    interrupted_Start
  show ?thesis by blast
qed

subsection \<open>The streamable transport\<close>

lemma handleJSONResponse_no_handler: "handleJSONResponse D None body s = (None, s)"
  by (simp add: handleJSONResponse_def)

lemma sseLoop_no_handler: "\<exists>dl'. sseLoop D None dl ls s = (Inr dl', s)"
  by (induction ls arbitrary: dl) (simp_all add: handleJSONResponse_no_handler)

lemma sseLoop_no_handler_decoders: "sseLoop D None dl ls s = sseLoop D' None dl ls s"
  by (induction ls arbitrary: dl) (simp_all add: handleJSONResponse_no_handler)

lemma parseSSEResponse_no_handler:
  "parseSSEResponse D None b s = (None, s) \<or> parseSSEResponse D None b s = (Scanner_Err b, s)"
proof -
  from sseLoop_no_handler [of D "[]" "fst (scanLines [] (content b))" s]
  obtain dl' where "sseLoop D None [] (fst (scanLines [] (content b))) s = (Inr dl', s)" ..
  then show ?thesis
    by (simp add: parseSSEResponse_def handleJSONResponse_no_handler)
qed

lemma parseSSEResponse_no_handler_decoders:
  "parseSSEResponse D None b s = parseSSEResponse D' None b s"
  by (simp add: parseSSEResponse_def handleJSONResponse_no_handler
        sseLoop_no_handler_decoders [of D _ _ _ D']
      split: prod.splits sum.splits)

lemma Scanner_Err_not_invalid: "Scanner_Err b \<noteq> Some (ReceivedInvalidResponse raw)"
  by (auto simp: Scanner_Err_def)

lemma parseSSEResponse_no_handler_result:
  assumes "parseSSEResponse D None b s = (e, s')"
  shows "s' = s \<and> e \<noteq> Some (ReceivedInvalidResponse raw)"
  using assms parseSSEResponse_no_handler [of D b s] Scanner_Err_not_invalid [of b raw]
  by auto

lemma captureSession_handler: "messageHandler (captureSession t resp) = messageHandler t"
  by (simp add: captureSession_def Let_def)

lemma Send_no_handler_decoders:
  assumes "messageHandler t = None"
  shows "SSEClientTransport_Send L D W t message s = SSEClientTransport_Send L D' W t message s"
  using assms
  by (simp add: SSEClientTransport_Send_def Let_def captureSession_handler
        handleJSONResponse_no_handler parseSSEResponse_no_handler_decoders [of D _ _ D']
      split: sum.splits option.splits)

lemma Send_no_handler_result:
  assumes "messageHandler t = None"
  shows "fst (SSEClientTransport_Send L D W t message s) \<noteq> Some (ReceivedInvalidResponse raw)
         \<and> fst (snd (snd (SSEClientTransport_Send L D W t message s))) = s"
  using assms
  by (auto simp: SSEClientTransport_Send_def Let_def captureSession_handler
        handleJSONResponse_no_handler
      split: sum.splits option.splits prod.splits
      dest: parseSSEResponse_no_handler_result)

text \<open>Claim C10. Without a registered handler \<^verbatim>\<open>handleJSONResponse\<close> returns success for
  every body and leaves the handler's state alone; it does not look at the decoders. So
  on a transport without handler \<^verbatim>\<open>Send\<close> never returns the error \<^emph>\<open>received invalid
  response\<close>, whatever the response is, and its whole result is the same for any two sets
  of decoders: nothing is classified.\<close>

theorem no_handler_no_classification:
  "handleJSONResponse D None body s = (None, s)
   \<and> (messageHandler t = None \<longrightarrow>
        fst (SSEClientTransport_Send L D W t message s) \<noteq> Some (ReceivedInvalidResponse raw)
        \<and> fst (snd (snd (SSEClientTransport_Send L D W t message s))) = s
        \<and> SSEClientTransport_Send L D W t message s = SSEClientTransport_Send L D' W t message s)"
  using handleJSONResponse_no_handler [of D body s] Send_no_handler_result [of t L D W message s raw]
    Send_no_handler_decoders [of t L D W message s D']
  by blast

lemma canon_mcp: "CanonicalMIMEHeaderKey ''Mcp-Session-Id'' = ''Mcp-Session-Id''"
  by code_simp

lemma canon_accept: "CanonicalMIMEHeaderKey ''Accept'' = ''Accept''"
  by code_simp

lemma json_is_no_event_stream: "\<not> Contains ''application/json'' ''text/event-stream''"
  by code_simp

lemma Send_plain_no_handler:
  "SSEClientTransport_Send rawLib specDecoders (serving (plainResponse ''oops'')) fresh listMessage ()
     = (None, fresh, (), [SSEClientTransport_buildRequest fresh ''{}''])"
  by (simp add: SSEClientTransport_Send_def serving_def plainResponse_def fresh_def
        NewSSEClientTransport_def captureSession_def Header_Get_def canon_mcp canon_content_type
        json_is_no_event_stream handleJSONResponse_no_handler Let_def)

theorem no_handler_no_classification_witness:
  "messageHandler fresh = None
   \<and> classify specDecoders ''oops'' = ClassificationError ''oops''
   \<and> SSEClientTransport_Send rawLib specDecoders (serving (plainResponse ''oops'')) fresh listMessage ()
       = (None, fresh, (), [SSEClientTransport_buildRequest fresh ''{}''])
   \<and> fst (SSEClientTransport_Send rawLib specDecoders (serving (plainResponse ''oops'')) fresh
            listMessage ()) \<noteq> Some (ReceivedInvalidResponse ''oops'')"
proof -
  have h: "messageHandler fresh = None"
    by (simp add: fresh_def NewSSEClientTransport_def)
  have c: "classify specDecoders ''oops'' = ClassificationError ''oops''"
    by code_simp
  from no_handler_no_classification
         [of specDecoders "''oops''" "()" fresh rawLib "serving (plainResponse ''oops'')" listMessage
             "''oops''" specDecoders] h
  have "fst (SSEClientTransport_Send rawLib specDecoders (serving (plainResponse ''oops'')) fresh
            listMessage ()) \<noteq> Some (ReceivedInvalidResponse ''oops'')"
    by blast
  with h c Send_plain_no_handler show ?thesis by blast
qed

lemma buildRequest_carries_session:
  "sessionID t \<noteq> [] \<Longrightarrow>
     rq_Header (SSEClientTransport_buildRequest t jsonData) (CanonicalMIMEHeaderKey ''Mcp-Session-Id'')
       = Some (sessionID t)"
  by (simp add: SSEClientTransport_buildRequest_def Header_Set_def Let_def)

lemma Send_requests:
  assumes "SSEClientTransport_Send L D W t message s = (e, t', s', reqs)" and "req \<in> set reqs"
  shows "\<exists>jsonData. req = SSEClientTransport_buildRequest t jsonData"
  using assms
  by (auto simp: SSEClientTransport_Send_def Let_def
      split: sum.splits option.splits prod.splits if_splits)

lemma Send_captures_session:
  assumes "SSEClientTransport_Send L D W t message s = (e, t', s', reqs)" and "req \<in> set reqs"
    and "Do W req = Inr resp"
  shows "t' = captureSession t resp"
  using assms
  by (auto simp: SSEClientTransport_Send_def Let_def
      split: sum.splits option.splits prod.splits if_splits)

lemma Send_without_response:
  assumes "SSEClientTransport_Send L D W t message s = (e, t', s', reqs)"
    and "\<forall>req \<in> set reqs. \<forall>resp. Do W req \<noteq> Inr resp"
  shows "t' = t"
  using assms
  by (auto simp: SSEClientTransport_Send_def Let_def
      split: sum.splits option.splits prod.splits if_splits)

lemma setHeaders_other:
  "k \<notin> CanonicalMIMEHeaderKey ` fst ` set kvs \<Longrightarrow> setHeaders h kvs k = h k"
  unfolding setHeaders_def
  by (induction kvs arbitrary: h) (auto simp: Header_Set_def)

lemma buildRequest_no_session:
  assumes "sessionID t = []"
    and "CanonicalMIMEHeaderKey ''Mcp-Session-Id'' \<notin> CanonicalMIMEHeaderKey ` fst ` set (headers t)"
  shows "rq_Header (SSEClientTransport_buildRequest t jsonData)
           (CanonicalMIMEHeaderKey ''Mcp-Session-Id'') = None"
  using assms
  by (simp add: SSEClientTransport_buildRequest_def Let_def setHeaders_other Header_Set_def
        canon_mcp canon_content_type canon_accept)

lemma Send_requests_single:
  assumes "SSEClientTransport_Send L D W t message s = (e, t', s', reqs)"
  shows "reqs = [] \<or> (\<exists>r. reqs = [r])"
  using assms
  by (auto simp: SSEClientTransport_Send_def Let_def
      split: sum.splits option.splits prod.splits if_splits)

lemma Send_keeps_session:
  assumes "SSEClientTransport_Send L D W t message s = (e, t', s', reqs)"
    and "\<And>r resp. r \<in> set reqs \<Longrightarrow> Do W r = Inr resp
           \<Longrightarrow> Header_Get (rs_Header resp) ''Mcp-Session-Id'' = []"
  shows "t' = t"
proof (cases "\<exists>r resp. r \<in> set reqs \<and> Do W r = Inr resp")
  case True
  then obtain r resp where r: "r \<in> set reqs" "Do W r = Inr resp"
    by blast
  from Send_captures_session [OF assms(1) r] assms(2) [OF r] show ?thesis
    by (simp add: captureSession_def)
next
  case False
  with Send_without_response [OF assms(1)] show ?thesis
    by blast
qed

text \<open>Claim C4. When a call of \<^verbatim>\<open>Send\<close> got a response whose \<^verbatim>\<open>Mcp-Session-Id\<close> header is
  not empty, the transport holds that value afterwards, whatever it held before and
  whatever the status of the response; and every request that a later \<^verbatim>\<open>Send\<close> hands to
  the HTTP client, on a transport that still holds it, carries the value in its
  \<^verbatim>\<open>Mcp-Session-Id\<close> header, also over a header of that name set by the caller. The
  transport keeps the value through a call that gets no response or a response without
  the header. On a transport that holds no session value and whose caller-supplied
  headers have no such name, as a new transport is, the requests of \<^verbatim>\<open>Send\<close> have no
  \<^verbatim>\<open>Mcp-Session-Id\<close> header.\<close>

theorem session_id_replayed:
  assumes first: "SSEClientTransport_Send L D W t message s = (e, t', s', reqs)"
    and req: "req \<in> set reqs"
    and resp: "Do W req = Inr resp"
    and sid: "Header_Get (rs_Header resp) ''Mcp-Session-Id'' = sid" "sid \<noteq> []"
    and later: "sessionID t2 = sessionID t'"
    and second: "SSEClientTransport_Send L2 D2 W2 t2 message2 s2 = (e2, t2', s2', reqs2)"
    and req2: "req2 \<in> set reqs2"
  shows "sessionID t' = sid
         \<and> rq_Header req2 (CanonicalMIMEHeaderKey ''Mcp-Session-Id'') = Some sid
         \<and> Header_Get (rq_Header req2) ''Mcp-Session-Id'' = sid
         \<and> ((\<forall>resp2. Do W2 req2 = Inr resp2
                \<longrightarrow> Header_Get (rs_Header resp2) ''Mcp-Session-Id'' = [])
              \<longrightarrow> sessionID t2' = sid)
         \<and> (sessionID tnew = []
              \<and> CanonicalMIMEHeaderKey ''Mcp-Session-Id''
                   \<notin> CanonicalMIMEHeaderKey ` fst ` set (headers tnew)
              \<longrightarrow> (\<forall>r \<in> set (requestsOf (SSEClientTransport_Send Lnew Dnew Wnew tnew messagenew snew)).
                     rq_Header r (CanonicalMIMEHeaderKey ''Mcp-Session-Id'') = None))
         \<and> sessionID (NewSSEClientTransport url) = []
         \<and> headers (NewSSEClientTransport url) = []"
proof -
  have "t' = captureSession t resp"
    using first req resp by (rule Send_captures_session)
  with sid have s1: "sessionID t' = sid"
    by (simp add: captureSession_def)
  from Send_requests [OF second req2]
  obtain j where j: "req2 = SSEClientTransport_buildRequest t2 j" ..
  with s1 later sid(2)
  have h: "rq_Header req2 (CanonicalMIMEHeaderKey ''Mcp-Session-Id'') = Some sid"
    by (simp add: buildRequest_carries_session)
  have k: "sessionID t2' = sid"
    if none: "\<forall>resp2. Do W2 req2 = Inr resp2
                \<longrightarrow> Header_Get (rs_Header resp2) ''Mcp-Session-Id'' = []"
  proof -
    have "r = req2" if "r \<in> set reqs2" for r
      using Send_requests_single [OF second] that req2 by auto
    with none have "t2' = t2"
      using Send_keeps_session [OF second] by blast
    with later s1 show ?thesis by simp
  qed
  have f: "rq_Header r (CanonicalMIMEHeaderKey ''Mcp-Session-Id'') = None"
    if tnew: "sessionID tnew = []"
           "CanonicalMIMEHeaderKey ''Mcp-Session-Id''
              \<notin> CanonicalMIMEHeaderKey ` fst ` set (headers tnew)"
      and r: "r \<in> set (requestsOf (SSEClientTransport_Send Lnew Dnew Wnew tnew messagenew snew))"
    for r
  proof -
    obtain enew tnew' snew' reqsnew where
      rn: "SSEClientTransport_Send Lnew Dnew Wnew tnew messagenew snew = (enew, tnew', snew', reqsnew)"
      by (metis prod_cases4)
    with r have "r \<in> set reqsnew"
      by (simp add: requestsOf_def)
    from Send_requests [OF rn this]
    obtain jnew where "r = SSEClientTransport_buildRequest tnew jnew" ..
    with tnew show ?thesis
      by (simp add: buildRequest_no_session)
  qed
  from s1 h k f show ?thesis
    by (simp add: Header_Get_def NewSSEClientTransport_def)
qed

lemma first_Send:
  "SSEClientTransport_Send rawLib specDecoders (serving (sessionResponse ''s1'')) fresh listMessage ()
     = (None, fresh\<lparr>sessionID := ''s1''\<rparr>, (), [SSEClientTransport_buildRequest fresh ''{}''])"
  by (simp add: SSEClientTransport_Send_def serving_def sessionResponse_def fresh_def
        NewSSEClientTransport_def captureSession_def Header_Get_def canon_mcp canon_content_type
        json_is_no_event_stream Let_def)

lemma second_Send:
  "SSEClientTransport_Send rawLib specDecoders (serving (sessionResponse ''s2''))
       (WithHeader (fresh\<lparr>sessionID := ''s1''\<rparr>) ''mcp-session-id'' ''mine'') listMessage ()
     = (None, WithHeader (fresh\<lparr>sessionID := ''s2''\<rparr>) ''mcp-session-id'' ''mine'', (),
        [SSEClientTransport_buildRequest
           (WithHeader (fresh\<lparr>sessionID := ''s1''\<rparr>) ''mcp-session-id'' ''mine'') ''{}''])"
  by (simp add: SSEClientTransport_Send_def serving_def sessionResponse_def fresh_def
        NewSSEClientTransport_def captureSession_def Header_Get_def canon_mcp canon_content_type
        json_is_no_event_stream WithHeader_def Let_def)

theorem session_id_replayed_witness:
  "SSEClientTransport_Send rawLib specDecoders (serving (sessionResponse ''s1'')) fresh listMessage ()
     = (None, fresh\<lparr>sessionID := ''s1''\<rparr>, (), [SSEClientTransport_buildRequest fresh ''{}''])
   \<and> Do (serving (sessionResponse ''s1'')) (SSEClientTransport_buildRequest fresh ''{}'')
       = Inr (sessionResponse ''s1'')
   \<and> Header_Get (rs_Header (sessionResponse ''s1'')) ''Mcp-Session-Id'' = ''s1''
   \<and> SSEClientTransport_Send rawLib specDecoders (serving (sessionResponse ''s2''))
         (WithHeader (fresh\<lparr>sessionID := ''s1''\<rparr>) ''mcp-session-id'' ''mine'') listMessage ()
       = (None, WithHeader (fresh\<lparr>sessionID := ''s2''\<rparr>) ''mcp-session-id'' ''mine'', (),
          [SSEClientTransport_buildRequest
             (WithHeader (fresh\<lparr>sessionID := ''s1''\<rparr>) ''mcp-session-id'' ''mine'') ''{}''])
   \<and> rq_Header (SSEClientTransport_buildRequest
                   (WithHeader (fresh\<lparr>sessionID := ''s1''\<rparr>) ''mcp-session-id'' ''mine'') ''{}'')
         (CanonicalMIMEHeaderKey ''Mcp-Session-Id'') = Some ''s1''
   \<and> rq_Header (SSEClientTransport_buildRequest fresh ''{}'')
         (CanonicalMIMEHeaderKey ''Mcp-Session-Id'') = None"
proof -
  let ?req1 = "SSEClientTransport_buildRequest fresh ''{}''"
  let ?t2 = "WithHeader (fresh\<lparr>sessionID := ''s1''\<rparr>) ''mcp-session-id'' ''mine''"
  let ?req2 = "SSEClientTransport_buildRequest ?t2 ''{}''"
  have d: "Do (serving (sessionResponse ''s1'')) ?req1 = Inr (sessionResponse ''s1'')"
    by (simp add: serving_def)
  have g: "Header_Get (rs_Header (sessionResponse ''s1'')) ''Mcp-Session-Id'' = ''s1''"
    by (simp add: sessionResponse_def Header_Get_def canon_mcp)
  have r1: "?req1 \<in> set [?req1]" and r2: "?req2 \<in> set [?req2]"
    by simp_all
  have ne: "''s1'' \<noteq> []"
    by simp
  have later: "sessionID ?t2 = sessionID (fresh\<lparr>sessionID := ''s1''\<rparr>)"
    by (simp add: WithHeader_def)
  note w = session_id_replayed
      [OF first_Send r1 d g ne later second_Send r2,
       where tnew = fresh and Lnew = rawLib and Dnew = specDecoders
         and Wnew = "serving (sessionResponse ''s1'')" and messagenew = listMessage and snew = "()"]
  have f0: "sessionID fresh = []"
    "CanonicalMIMEHeaderKey ''Mcp-Session-Id''
       \<notin> CanonicalMIMEHeaderKey ` fst ` set (headers fresh)"
    by (simp_all add: fresh_def NewSSEClientTransport_def)
  from w have a: "rq_Header ?req2 (CanonicalMIMEHeaderKey ''Mcp-Session-Id'') = Some ''s1''"
    by blast
  from w f0 have "\<forall>r \<in> set (requestsOf (SSEClientTransport_Send rawLib specDecoders
                   (serving (sessionResponse ''s1'')) fresh listMessage ())).
                 rq_Header r (CanonicalMIMEHeaderKey ''Mcp-Session-Id'') = None"
    by blast
  then have b: "rq_Header ?req1 (CanonicalMIMEHeaderKey ''Mcp-Session-Id'') = None"
    by (simp add: first_Send requestsOf_def)
  from first_Send second_Send d g a b show ?thesis
    by blast
qed

lemma classify_error_raw: "classify D p = ClassificationError raw \<Longrightarrow> raw = p"
  by (auto simp: classify_def split: option.splits sum.splits)

lemma handleJSONResponse_classifies:
  "classifies D p \<Longrightarrow> fst (handleJSONResponse D (Some h) p s) = None"
  by (auto simp: classifies_def handleJSONResponse_classify split: classification.splits)

lemma handleJSONResponse_not_classifies:
  "\<not> classifies D p \<Longrightarrow>
     handleJSONResponse D (Some h) p s = (Some (ReceivedInvalidResponse p), s)"
  by (auto simp: classifies_def handleJSONResponse_classify
        split: classification.splits dest: classify_error_raw)

lemma deliver_Cons:
  "deliver D h (p # ps) s = deliver D h ps (snd (handleJSONResponse D (Some h) p s))"
  by (simp add: deliver_def)

lemma deliver_Nil: "deliver D h [] s = s"
  by (simp add: deliver_def)

lemma sseLoop_stops:
  assumes "eventsFrom dl ls = pre @ bad # post"
    and "\<forall>p \<in> set pre. classifies D p"
    and "\<not> classifies D bad"
  shows "(case sseLoop D (Some h) dl ls s of
            (Inl err, s') \<Rightarrow> (Some err, s')
          | (Inr dataLines, s') \<Rightarrow>
              if length dataLines > 0
              then handleJSONResponse D (Some h) (Join dataLines [CHR 0x0A]) s'
              else (scanErr, s'))
         = (Some (ReceivedInvalidResponse bad), deliver D h pre s)"
  using assms
proof (induction ls arbitrary: dl pre s)
  case Nil
  then have "dl \<noteq> []" and "pre = []" and "bad = Join dl [CHR 0x0A]"
    by (auto split: if_splits simp: Cons_eq_append_conv)
  with Nil.prems(3) show ?case
    by (simp add: handleJSONResponse_not_classifies deliver_Nil)
next
  case (Cons line ls)
  show ?case
  proof (cases "HasPrefix line ''data: ''")
    case True
    with Cons.prems have "eventsFrom (dl @ [TrimPrefix line ''data: '']) ls = pre @ bad # post"
      by simp
    from Cons.IH [OF this Cons.prems(2) Cons.prems(3)] True show ?thesis
      by simp
  next
    case False
    show ?thesis
    proof (cases "line = [] \<and> dl \<noteq> []")
      case blank: True
      with False Cons.prems(1)
      have ev: "Join dl [CHR 0x0A] # eventsFrom [] ls = pre @ bad # post"
        by simp
      show ?thesis
      proof (cases pre)
        case Nil
        with ev have "bad = Join dl [CHR 0x0A]"
          by simp
        with Nil False blank Cons.prems(3) show ?thesis
          by (simp add: handleJSONResponse_not_classifies deliver_Nil)
      next
        case (Cons p pre')
        with ev have p: "p = Join dl [CHR 0x0A]" and rest: "eventsFrom [] ls = pre' @ bad # post"
          by simp_all
        from Cons Cons.prems(2) have good: "classifies D p" and goods: "\<forall>q \<in> set pre'. classifies D q"
          by simp_all
        obtain s1 where h1: "handleJSONResponse D (Some h) p s = (None, s1)"
          using handleJSONResponse_classifies [OF good, of h s]
          by (cases "handleJSONResponse D (Some h) p s") simp
        from Cons.IH [OF rest goods Cons.prems(3), of s1] False blank p h1 Cons show ?thesis
          by (simp add: deliver_Cons)
      qed
    next
      case other: False
      with False Cons.prems(1) have "eventsFrom dl ls = pre @ bad # post"
        by auto
      from Cons.IH [OF this Cons.prems(2) Cons.prems(3)] False other show ?thesis
        by auto
    qed
  qed
qed

lemma parseSSEResponse_stops:
  assumes "events (content body) = pre @ bad # post"
    and "\<forall>p \<in> set pre. classifies D p"
    and "\<not> classifies D bad"
  shows "parseSSEResponse D (Some h) body s
           = (Some (ReceivedInvalidResponse bad), deliver D h pre s)"
  using sseLoop_stops [OF assms [unfolded events_def], where h = h and s = s
          and scanErr = "Scanner_Err body"]
  by (simp add: parseSSEResponse_def)

lemma Send_event_stream:
  assumes "MarshalMessage W (SSEClientTransport_cleanMessage L message) = Inr jsonData"
    and "NewRequestError W ''POST'' (baseURL t) = None"
    and "Do W (SSEClientTransport_buildRequest t jsonData) = Inr resp"
    and "StatusCode resp = 200"
    and "Contains (Header_Get (rs_Header resp) ''Content-Type'') ''text/event-stream''"
  shows "SSEClientTransport_Send L D W t message s
           = (fst (parseSSEResponse D (messageHandler t) (rs_Body resp) s),
              captureSession t resp,
              snd (parseSSEResponse D (messageHandler t) (rs_Body resp) s),
              [SSEClientTransport_buildRequest t jsonData])"
  using assms
  by (simp add: SSEClientTransport_Send_def Let_def captureSession_handler split: prod.splits)

lemma Send_stops_at_unclassifiable_event:
  assumes "MarshalMessage W (SSEClientTransport_cleanMessage L message) = Inr jsonData"
    and "NewRequestError W ''POST'' (baseURL t) = None"
    and "Do W (SSEClientTransport_buildRequest t jsonData) = Inr resp"
    and "StatusCode resp = 200"
    and "Contains (Header_Get (rs_Header resp) ''Content-Type'') ''text/event-stream''"
    and "messageHandler t = Some h"
    and "events (content (rs_Body resp)) = pre @ bad # post"
    and "\<forall>p \<in> set pre. classifies D p"
    and "\<not> classifies D bad"
  shows "SSEClientTransport_Send L D W t message s
           = (Some (ReceivedInvalidResponse bad), captureSession t resp, deliver D h pre s,
              [SSEClientTransport_buildRequest t jsonData])"
  using Send_event_stream [OF assms(1-5), where D = D and s = s]
    parseSSEResponse_stops [OF assms(7-9), where h = h and s = s]
    assms(6)
  by simp

lemma sseLoop_all_classified:
  assumes "\<forall>p \<in> set (eventsFrom dl ls). classifies D p"
  shows "\<exists>e. (case sseLoop D (Some h) dl ls s of
                 (Inl err, s') \<Rightarrow> (Some err, s')
               | (Inr dataLines, s') \<Rightarrow>
                   if length dataLines > 0
                   then handleJSONResponse D (Some h) (Join dataLines [CHR 0x0A]) s'
                   else (scanErr, s'))
              = (e, deliver D h (eventsFrom dl ls) s) \<and> (e = None \<or> e = scanErr)"
  using assms
proof (induction ls arbitrary: dl s)
  case Nil
  show ?case
  proof (cases "dl = []")
    case True
    then show ?thesis by (simp add: deliver_Nil)
  next
    case False
    with Nil have "classifies D (Join dl [CHR 0x0A])"
      by simp
    from handleJSONResponse_classifies [OF this, of h s] False show ?thesis
      by (cases "handleJSONResponse D (Some h) (Join dl [CHR 0x0A]) s")
         (simp add: deliver_Cons deliver_Nil)
  qed
next
  case (Cons line ls)
  show ?case
  proof (cases "HasPrefix line ''data: ''")
    case True
    with Cons.prems have "\<forall>p \<in> set (eventsFrom (dl @ [TrimPrefix line ''data: '']) ls). classifies D p"
      by simp
    from Cons.IH [OF this, of s] True show ?thesis
      by simp
  next
    case False
    show ?thesis
    proof (cases "line = [] \<and> dl \<noteq> []")
      case blank: True
      with False Cons.prems
      have good: "classifies D (Join dl [CHR 0x0A])"
        and goods: "\<forall>p \<in> set (eventsFrom [] ls). classifies D p"
        by simp_all
      obtain s1 where h1: "handleJSONResponse D (Some h) (Join dl [CHR 0x0A]) s = (None, s1)"
        using handleJSONResponse_classifies [OF good, of h s]
        by (cases "handleJSONResponse D (Some h) (Join dl [CHR 0x0A]) s") simp
      from Cons.IH [OF goods, of s1] False blank h1 show ?thesis
        by (simp add: deliver_Cons)
    next
      case other: False
      with False Cons.prems have "\<forall>p \<in> set (eventsFrom dl ls). classifies D p"
        by auto
      from Cons.IH [OF this, of s] False other show ?thesis
        by auto
    qed
  qed
qed

lemma parseSSEResponse_all_classified:
  assumes "\<forall>p \<in> set (events (content body)). classifies D p"
  shows "\<exists>e. parseSSEResponse D (Some h) body s = (e, deliver D h (events (content body)) s)
              \<and> (e = None \<or> e = Scanner_Err body)"
  using sseLoop_all_classified [OF assms [unfolded events_def], where h = h and s = s
          and scanErr = "Scanner_Err body"]
  by (simp add: parseSSEResponse_def events_def)

text \<open>Claim C2, as amended. With a handler registered and an event-stream response of
  status 200: the events of the body are handed to the classifier in order. When one of
  them matches no message shape, \<^verbatim>\<open>Send\<close> returns the error \<^emph>\<open>received invalid response\<close>
  with the raw payload; the events before it have been dispatched, the events after it
  are neither classified nor dispatched. When every event classifies, every event is
  dispatched, and \<^verbatim>\<open>Send\<close> returns success or the error of the line scanner.\<close>

theorem Send_event_stream_until_unclassifiable:
  assumes "MarshalMessage W (SSEClientTransport_cleanMessage L message) = Inr jsonData"
    and "NewRequestError W ''POST'' (baseURL t) = None"
    and "Do W (SSEClientTransport_buildRequest t jsonData) = Inr resp"
    and "StatusCode resp = 200"
    and "Contains (Header_Get (rs_Header resp) ''Content-Type'') ''text/event-stream''"
    and "messageHandler t = Some h"
  shows "(events (content (rs_Body resp)) = pre @ bad # post
            \<and> (\<forall>p \<in> set pre. classifies D p) \<and> \<not> classifies D bad
          \<longrightarrow> SSEClientTransport_Send L D W t message s
                = (Some (ReceivedInvalidResponse bad), captureSession t resp, deliver D h pre s,
                   [SSEClientTransport_buildRequest t jsonData]))
         \<and> ((\<forall>p \<in> set (events (content (rs_Body resp))). classifies D p)
          \<longrightarrow> (\<exists>e. SSEClientTransport_Send L D W t message s
                       = (e, captureSession t resp, deliver D h (events (content (rs_Body resp))) s,
                          [SSEClientTransport_buildRequest t jsonData])
                     \<and> (e = None \<or> e = Scanner_Err (rs_Body resp))))"
proof (intro conjI impI)
  assume "events (content (rs_Body resp)) = pre @ bad # post
            \<and> (\<forall>p \<in> set pre. classifies D p) \<and> \<not> classifies D bad"
  then show "SSEClientTransport_Send L D W t message s
                = (Some (ReceivedInvalidResponse bad), captureSession t resp, deliver D h pre s,
                   [SSEClientTransport_buildRequest t jsonData])"
    using Send_stops_at_unclassifiable_event [OF assms] by blast
next
  assume "\<forall>p \<in> set (events (content (rs_Body resp))). classifies D p"
  from parseSSEResponse_all_classified [OF this, where h = h and s = s]
    Send_event_stream [OF assms(1-5), where D = D and s = s] assms(6)
  show "\<exists>e. SSEClientTransport_Send L D W t message s
                       = (e, captureSession t resp, deliver D h (events (content (rs_Body resp))) s,
                          [SSEClientTransport_buildRequest t jsonData])
                     \<and> (e = None \<or> e = Scanner_Err (rs_Body resp))"
    by auto
qed

lemma serving_eventStream:
  "MarshalMessage (serving (eventStream bytes)) m = Inr ''{}''"
  "NewRequestError (serving (eventStream bytes)) method url = None"
  "Do (serving (eventStream bytes)) req = Inr (eventStream bytes)"
  "StatusCode (eventStream bytes) = 200"
  "Contains (Header_Get (rs_Header (eventStream bytes)) ''Content-Type'') ''text/event-stream''"
  "content (rs_Body (eventStream bytes)) = bytes"
  "captureSession t (eventStream bytes) = t"
  by (simp_all add: serving_def eventStream_def Header_Get_def canon_content_type canon_mcp
        event_stream_contains captureSession_def)

lemma listening_handler: "messageHandler listening = Some record_message"
  by (simp add: listening_def SetMessageHandler_def)

lemma events_streamBadGood: "events streamBadGood = [] @ ''oops'' # [payloadResponse]"
  by code_simp

lemma events_streamGoodBadGood:
  "events streamGoodBadGood = [payloadNotification] @ ''oops'' # [payloadResponse]"
  by code_simp

lemma oops_not_classified: "\<not> classifies specDecoders ''oops''"
  by code_simp

lemma payloadResponse_classified: "classifies specDecoders payloadResponse"
  by code_simp

lemma payloadNotification_classified: "classifies specDecoders payloadNotification"
  by code_simp

lemma deliver_notification:
  "deliver specDecoders record_message [payloadNotification] []
     = [NewBaseMessageNotification \<lparr>ntf_Jsonrpc = ''2.0'', ntf_Method = ''ping'', ntf_Params = []\<rparr>]"
  by code_simp

text \<open>Claim C2 as stated fails: a body whose first event is \<^verbatim>\<open>oops\<close> and whose second
  event is a well-formed Response makes \<^verbatim>\<open>Send\<close> return an error, and the handler receives
  nothing.\<close>

theorem unclassifiable_event_counterexample:
  "events streamBadGood = [''oops'', payloadResponse]
   \<and> classifies specDecoders payloadResponse
   \<and> SSEClientTransport_Send rawLib specDecoders (serving (eventStream streamBadGood)) listening
        listMessage []
      = (Some (ReceivedInvalidResponse ''oops''), listening, [],
         [SSEClientTransport_buildRequest listening ''{}''])"
proof -
  have "SSEClientTransport_Send rawLib specDecoders (serving (eventStream streamBadGood)) listening
          listMessage []
        = (Some (ReceivedInvalidResponse ''oops''),
           captureSession listening (eventStream streamBadGood),
           deliver specDecoders record_message [] [],
           [SSEClientTransport_buildRequest listening ''{}''])"
    by (rule Send_stops_at_unclassifiable_event [where post = "[payloadResponse]"])
       (simp_all add: serving_eventStream listening_handler events_streamBadGood
          oops_not_classified)
  with events_streamBadGood payloadResponse_classified show ?thesis
    by (simp add: serving_eventStream deliver_Nil)
qed

theorem Send_event_stream_until_unclassifiable_witness:
  "events (content (rs_Body (eventStream streamGoodBadGood)))
      = [payloadNotification] @ ''oops'' # [payloadResponse]
   \<and> classifies specDecoders payloadNotification
   \<and> \<not> classifies specDecoders ''oops''
   \<and> SSEClientTransport_Send rawLib specDecoders (serving (eventStream streamGoodBadGood)) listening
        listMessage []
      = (Some (ReceivedInvalidResponse ''oops''), listening,
         [NewBaseMessageNotification \<lparr>ntf_Jsonrpc = ''2.0'', ntf_Method = ''ping'', ntf_Params = []\<rparr>],
         [SSEClientTransport_buildRequest listening ''{}''])"
proof -
  have ev: "events (content (rs_Body (eventStream streamGoodBadGood)))
      = [payloadNotification] @ ''oops'' # [payloadResponse]"
    by (simp add: serving_eventStream events_streamGoodBadGood)
  have pre: "\<forall>p \<in> set [payloadNotification]. classifies specDecoders p"
    by (simp add: payloadNotification_classified)
  note w = Send_event_stream_until_unclassifiable
      [where W = "serving (eventStream streamGoodBadGood)" and L = rawLib and message = listMessage
         and t = listening and resp = "eventStream streamGoodBadGood" and h = record_message
         and D = specDecoders and pre = "[payloadNotification]" and bad = "''oops''"
         and post = "[payloadResponse]" and s = "[]" and jsonData = "''{}''",
       OF serving_eventStream(1) serving_eventStream(2) serving_eventStream(3)
          serving_eventStream(4) serving_eventStream(5) listening_handler]
  from w ev pre oops_not_classified
  have "SSEClientTransport_Send rawLib specDecoders (serving (eventStream streamGoodBadGood)) listening
          listMessage []
        = (Some (ReceivedInvalidResponse ''oops''),
           captureSession listening (eventStream streamGoodBadGood),
           deliver specDecoders record_message [payloadNotification] [],
           [SSEClientTransport_buildRequest listening ''{}''])"
    by blast
  with ev payloadNotification_classified oops_not_classified show ?thesis
    by (simp add: serving_eventStream deliver_notification)
qed

end
